theory Spec2Isabelle
  imports Complex_Main "HOL-Library.Sublist" "HOL-Library.Log_Nat"
begin

section \<open>Binary64 arithmetic\<close>

text \<open>
  The numbers of the source language are binary64 floating-point numbers. A finite one
  is modelled by its exact rational value, and every arithmetic operation by the exact
  operation followed by \<open>round64\<close>, the rounding to the nearest binary64 number with
  ties to the even significand: 53 significant bits, least exponent \<open>-1022\<close>, so that
  the numbers below \<open>2^-1022\<close> are the multiples of \<open>2^-1074\<close>. A decimal literal of
  the source, such as \<open>0.05\<close>, is the rounding of its decimal value. Results beyond the
  binary64 range (from \<open>2^1024\<close> on, where the runtime gives an infinity) and the sign
  of zero are outside this model.
\<close>

text \<open>The nearest integer, the even one on a tie.\<close>

definition roundHalfEven :: "rat \<Rightarrow> int" where
  "roundHalfEven r =
     (let f = \<lfloor>r\<rfloor>; d = r - of_int f
      in if d < 1 / 2 then f else if d > 1 / 2 then f + 1 else if even f then f else f + 1)"

text \<open>For positive \<open>x\<close>, the exponent \<open>e\<close> with \<open>2^e \<le> x < 2^(e+1)\<close>.\<close>

definition ilog2 :: "rat \<Rightarrow> int" where
  "ilog2 x = (let (p, q) = quotient_of x; c = bitlen p - bitlen q
              in if 2 powi c \<le> x then c else c - 1)"

definition round64 :: "rat \<Rightarrow> rat" where
  "round64 x =
     (if x = 0 then 0
      else (let e = max (ilog2 \<bar>x\<bar>) (- 1022); q = 2 powi (e - 52)
            in of_int (roundHalfEven (x / q)) * q))"

section \<open>Numbers, strings and remote calls\<close>

text \<open>
  A number of the program is \<open>NaN\<close> or a finite number, given by its exact rational
  value. \<open>NaN\<close> is kept as a value of its own, since reading an array out of range and
  \<open>parseFloat\<close> both produce it; every comparison with \<open>NaN\<close> is false, as in the
  source language. Lamport counts in the balance change detector are integers, exact in
  a binary64 below \<open>2^53\<close>.
\<close>

datatype jsnum = NaN | Num rat

fun jabs :: "jsnum \<Rightarrow> jsnum" where
  "jabs NaN = NaN"
| "jabs (Num x) = Num \<bar>x\<bar>"

text \<open>\<open>a + b\<close>\<close>

fun jadd :: "jsnum \<Rightarrow> jsnum \<Rightarrow> jsnum" where
  "jadd (Num x) (Num y) = Num (round64 (x + y))"
| "jadd _ _ = NaN"

fun jgt :: "jsnum \<Rightarrow> rat \<Rightarrow> bool" where
  "jgt (Num x) c = (x > c)"
| "jgt NaN c = False"

fun jlt :: "jsnum \<Rightarrow> rat \<Rightarrow> bool" where
  "jlt (Num x) c = (x < c)"
| "jlt NaN c = False"

text \<open>\<open>s.includes(sub)\<close>: \<open>sub\<close> occurs in \<open>s\<close> as a contiguous run.\<close>

definition str_includes :: "string \<Rightarrow> string \<Rightarrow> bool" where
  "str_includes s sub = sublist sub s"

text \<open>
  An awaited remote call either throws (the error's \<open>message\<close> may be absent) or
  returns a value.
\<close>

datatype 'a rpc = Throws "string option" | Returns 'a

text \<open>\<open>e.message?.includes('429')\<close>\<close>

fun is429 :: "string option \<Rightarrow> bool" where
  "is429 None = False"
| "is429 (Some m) = str_includes m ''429''"

section \<open>Balance change detector\<close>

record WalletConfig =
  address :: string
  name :: string
  emoji :: string

record AccountInfo =
  lamports :: int

record Update =
  wallet :: WalletConfig
  cur :: int
  diffSol :: rat

type_synonym balances = "string \<rightharpoonup> int"

definition MAX_CONCURRENT_TASKS :: nat where
  "MAX_CONCURRENT_TASKS = 5"

definition CHUNK_SIZE :: nat where
  "CHUNK_SIZE = 50"

definition lamportsToSol :: "int \<Rightarrow> rat" where
  "lamportsToSol l = of_int l / 10 ^ 9"

text \<open>\<open>info ? info.lamports : 0\<close>\<close>

definition curOf :: "AccountInfo option \<Rightarrow> int" where
  "curOf info = (case info of None \<Rightarrow> 0 | Some i \<Rightarrow> lamports i)"

text \<open>\<open>balanceCache.get(a) ?? 0\<close>, the only way the program reads the cache.\<close>

definition cachedBalance :: "balances \<Rightarrow> string \<Rightarrow> int" where
  "cachedBalance cache a = (case cache a of None \<Rightarrow> 0 | Some v \<Rightarrow> v)"

text \<open>\<open>array.slice(i, j)\<close> for \<open>0 \<le> i \<le> j\<close>.\<close>

definition slice :: "'a list \<Rightarrow> nat \<Rightarrow> nat \<Rightarrow> 'a list" where
  "slice array i j = take (j - i) (drop i array)"

text \<open>
  The loop of \<open>chunkArray\<close>, \<open>for (i = 0; i < array.length; i += size) res.push(...)\<close>.
  With \<open>size = 0\<close> and a non-empty array it never ends, which is the value \<open>None\<close>.
\<close>

partial_function (option) chunkLoop :: "'a list \<Rightarrow> nat \<Rightarrow> nat \<Rightarrow> 'a list list \<Rightarrow> 'a list list option" where
  "chunkLoop array sz i res =
     (if i < length array
      then chunkLoop array sz (i + sz) (res @ [slice array i (i + sz)])
      else Some res)"

definition chunkArray :: "'a list \<Rightarrow> nat \<Rightarrow> 'a list list option" where
  "chunkArray array sz = chunkLoop array sz 0 []"

text \<open>
  The initial snapshot of one batch:
  \<open>infos.forEach((info, i) => balanceCache.set(chunk[i].address, info ? info.lamports : 0))\<close>.
  Were the reply longer than the batch, \<open>chunk[i]\<close> would be undefined and the read of
  its address would throw; the enclosing \<open>catch\<close> is empty, so the writes made so far
  stay.
\<close>

fun initChunk :: "AccountInfo option list \<Rightarrow> WalletConfig list \<Rightarrow> balances \<Rightarrow> balances" where
  "initChunk [] chunk cache = cache"
| "initChunk (info # infos) [] cache = cache"
| "initChunk (info # infos) (w # ws) cache =
     initChunk infos ws (cache(address w \<mapsto> curOf info))"

definition initBatch :: "AccountInfo option list rpc \<Rightarrow> WalletConfig list \<Rightarrow> balances \<Rightarrow> balances" where
  "initBatch reply chunk cache =
     (case reply of Throws m \<Rightarrow> cache | Returns infos \<Rightarrow> initChunk infos chunk cache)"

text \<open>
  The detection loop of one batch, steps 1 and 2 of the polling loop. The result is the
  cache as the loop leaves it and either the list \<open>updates\<close> or, where \<open>chunk[i]\<close> is
  undefined, the \<open>TypeError\<close> that leaves the \<open>try\<close> block.
\<close>

datatype error = TypeError

fun detectChanges :: "AccountInfo option list \<Rightarrow> WalletConfig list \<Rightarrow> balances \<Rightarrow> Update list
    \<Rightarrow> balances \<times> (error + Update list)" where
  "detectChanges [] chunk cache updates = (cache, Inr updates)"
| "detectChanges (info # infos) [] cache updates = (cache, Inl TypeError)"
| "detectChanges (info # infos) (w # ws) cache updates =
     (let cur = curOf info;
          old = cachedBalance cache (address w)
      in if cur \<noteq> old
         then (let diffSol = lamportsToSol (cur - old)
               in if \<bar>diffSol\<bar> > 1 / 10 ^ 9
                  then detectChanges infos ws (cache(address w \<mapsto> cur))
                         (updates @ [\<lparr>wallet = w, cur = cur, diffSol = diffSol\<rparr>])
                  else detectChanges infos ws (cache(address w \<mapsto> cur)) updates)
         else detectChanges infos ws cache updates)"

record PollState =
  balanceCache :: balances
  dynamicInterval :: int

text \<open>
  One iteration of \<open>for (const chunk of dynamicChunks)\<close>: the batched balance query, the
  adjustment of the polling interval, the detection loop, and the \<open>catch\<close> clause. The
  second component is the list of updates handed to the dispatch of step 3, which does
  not touch the balance cache.
\<close>

definition pollChunk :: "AccountInfo option list rpc \<Rightarrow> WalletConfig list \<Rightarrow> PollState
    \<Rightarrow> PollState \<times> Update list" where
  "pollChunk reply chunk st =
     (case reply of
        Throws m \<Rightarrow>
          (if is429 m
           then (st\<lparr>dynamicInterval :=
                      (if dynamicInterval st + 1000 > 10000 then 10000
                       else dynamicInterval st + 1000)\<rparr>, [])
           else (st, []))
      | Returns infos \<Rightarrow>
          (let st1 = (if dynamicInterval st > 1000
                      then st\<lparr>dynamicInterval := dynamicInterval st - 100\<rparr> else st)
           in case detectChanges infos chunk (balanceCache st1) [] of
                (cache', Inr updates) \<Rightarrow> (st1\<lparr>balanceCache := cache'\<rparr>, updates)
              | (cache', Inl e) \<Rightarrow> (st1\<lparr>balanceCache := cache'\<rparr>, [])))"

text \<open>
  One polling cycle over the batches, in order; \<open>replies k\<close> is the ledger's answer to
  the \<open>k\<close>-th batch query of the cycle.
\<close>

fun pollChunks :: "(nat \<Rightarrow> AccountInfo option list rpc) \<Rightarrow> nat \<Rightarrow> WalletConfig list list
    \<Rightarrow> PollState \<Rightarrow> PollState \<times> Update list list" where
  "pollChunks replies k [] st = (st, [])"
| "pollChunks replies k (chunk # chunks) st =
     (let (st1, updates) = pollChunk (replies k) chunk st;
          (st2, rest) = pollChunks replies (Suc k) chunks st1
      in (st2, updates # rest))"

definition pollCycle :: "(nat \<Rightarrow> AccountInfo option list rpc) \<Rightarrow> WalletConfig list \<Rightarrow> PollState
    \<Rightarrow> (PollState \<times> Update list list) option" where
  "pollCycle replies wallets st =
     (case chunkArray wallets CHUNK_SIZE of
        None \<Rightarrow> None
      | Some chunks \<Rightarrow> Some (pollChunks replies 0 chunks st))"

subsection \<open>Closed form of the detection loop\<close>

text \<open>
  The test of the detection loop and the record it pushes, as functions of the cache the
  batch started from; the lemmas below show that the loop computes them.
\<close>

definition moved :: "balances \<Rightarrow> AccountInfo option \<times> WalletConfig \<Rightarrow> bool" where
  "moved cache p = (\<bar>lamportsToSol (curOf (fst p) - cachedBalance cache (address (snd p)))\<bar> > 1 / 10 ^ 9)"

definition mkUpdate :: "balances \<Rightarrow> AccountInfo option \<times> WalletConfig \<Rightarrow> Update" where
  "mkUpdate cache p = \<lparr>wallet = snd p, cur = curOf (fst p),
       diffSol = lamportsToSol (curOf (fst p) - cachedBalance cache (address (snd p)))\<rparr>"


section \<open>Signature resolution retrier\<close>

text \<open>
  One entry of the reply of \<open>getSignaturesForAddress\<close>; \<open>sig_err\<close> says that the
  entry's \<open>err\<close> field is set.
\<close>

record SignatureInfo =
  sig_signature :: string
  sig_err :: bool

definition MAX_ATTEMPTS :: nat where
  "MAX_ATTEMPTS = 15"

text \<open>
  The variables of the retry loop, and \<open>delays\<close>: the milliseconds slept after each
  attempt that did not leave the loop, in order.
\<close>

record RetryState =
  signatures :: "SignatureInfo list"
  attempts :: nat
  delays :: "nat list"

text \<open>
  The body of the \<open>while\<close> loop for one reply. The first component says whether the
  body left the loop by \<open>break\<close>. A throw is caught; if the message includes \<open>429\<close> the
  body sleeps 1000 ms; in every case but \<open>break\<close> it then increments \<open>attempts\<close> and
  sleeps 200 ms.
\<close>

definition attemptStep :: "SignatureInfo list rpc \<Rightarrow> RetryState \<Rightarrow> bool \<times> RetryState" where
  "attemptStep reply s =
     (case reply of
        Returns sigs \<Rightarrow>
          (case sigs of
             [] \<Rightarrow> (False, s\<lparr>signatures := sigs, attempts := attempts s + 1,
                              delays := delays s @ [200]\<rparr>)
           | sg # _ \<Rightarrow>
               if \<not> sig_err sg then (True, s\<lparr>signatures := sigs\<rparr>)
               else (False, s\<lparr>signatures := sigs, attempts := attempts s + 1,
                               delays := delays s @ [200]\<rparr>))
      | Throws m \<Rightarrow>
          (False, s\<lparr>attempts := attempts s + 1,
                      delays := delays s @ [(if is429 m then 1000 else 0) + 200]\<rparr>))"

text \<open>
  \<open>while (attempts < MAX_ATTEMPTS) { ... }\<close>; \<open>replies k\<close> is the outcome of the call
  made when \<open>attempts = k\<close>.
\<close>

function retryLoop :: "(nat \<Rightarrow> SignatureInfo list rpc) \<Rightarrow> RetryState \<Rightarrow> RetryState" where
  "retryLoop replies s =
     (if attempts s < MAX_ATTEMPTS
      then (case attemptStep (replies (attempts s)) s of
              (True, s') \<Rightarrow> s'
            | (False, s') \<Rightarrow> retryLoop replies s')
      else s)"
  by pat_completeness auto
termination
  by (relation "measure (\<lambda>(replies, s). MAX_ATTEMPTS - attempts s)")
     (auto simp: attemptStep_def split: rpc.splits list.splits if_splits)

declare retryLoop.simps [simp del]

definition resolveSignature :: "(nat \<Rightarrow> SignatureInfo list rpc) \<Rightarrow> string option" where
  "resolveSignature replies =
     (case signatures (retryLoop replies \<lparr>signatures = [], attempts = 0, delays = []\<rparr>) of
        [] \<Rightarrow> None
      | sg # _ \<Rightarrow> Some (sig_signature sg))"

section \<open>Token metadata resolver\<close>

record TokenMarketData =
  symbol :: string
  tokenName :: string
  priceUsd :: string
  fdv :: rat
  liquidity :: rat

record RugCheckData =
  score :: rat
  riskLevel :: string
  isNew :: bool

definition CACHE_TTL :: int where
  "CACHE_TTL = 60 * 1000"

definition WSOL_MINT :: string where
  "WSOL_MINT = ''So11111111111111111111111111111111111111112''"

text \<open>
  The outcome of one request under \<open>Promise.allSettled\<close>, and an HTTP response:
  \<open>body\<close> is what \<open>res.json()\<close> gives, \<open>None\<close> when it throws.
\<close>

datatype 'a settled = Rejected | Fulfilled 'a

record 'j Response =
  status :: nat
  ok :: bool
  body :: "'j option"

text \<open>The fields of the two market-data replies that the resolver reads.\<close>

datatype ExtraInfo = ExtraInfo (ei_symbol: "string option")

datatype JupInfo = JupInfo (info_price: "string option") (info_extraInfo: "ExtraInfo option")

datatype JupData = JupData (jup_data: "(string \<rightharpoonup> JupInfo) option")

datatype BaseToken = BaseToken (bt_symbol: string) (bt_name: string)

text \<open>\<open>pair_liquidity\<close> is \<open>liquidity.usd\<close>, \<open>None\<close> when the pair has no \<open>liquidity\<close>.\<close>

datatype DexPair = DexPair (pair_baseToken: BaseToken) (pair_priceUsd: string)
  (pair_fdv: "rat option") (pair_liquidity: "rat option")

datatype DexData = DexData (dex_pairs: "DexPair list option")

datatype RugJson = RugJson (rug_score: "rat option")

text \<open>\<open>x || d\<close> on an optional string: the empty string is falsy.\<close>

definition orElse :: "string option \<Rightarrow> string \<Rightarrow> string" where
  "orElse x d = (case x of None \<Rightarrow> d | Some s \<Rightarrow> if s = [] then d else s)"

text \<open>\<open>x || 0\<close> on an optional number.\<close>

definition orZero :: "rat option \<Rightarrow> rat" where
  "orZero x = (case x of None \<Rightarrow> 0 | Some v \<Rightarrow> v)"

text \<open>
  \<open>cached && (Date.now() - cached.timestamp < CACHE_TTL)\<close>: the entry a reader gets from
  a cache of timestamped entries at time \<open>now\<close>.
\<close>

definition cacheHit :: "(string \<rightharpoonup> 'd \<times> int) \<Rightarrow> int \<Rightarrow> string \<Rightarrow> 'd option" where
  "cacheHit cache now mint =
     (case cache mint of
        None \<Rightarrow> None
      | Some (d, timestamp) \<Rightarrow> if now - timestamp < CACHE_TTL then Some d else None)"

text \<open>The local variables of \<open>fetchTokenMarketData\<close>.\<close>

record TokenVars = TokenMarketData +
  found :: bool

definition initialVars :: TokenVars where
  "initialVars = \<lparr>symbol = ''UNKNOWN'', tokenName = ''Unknown Token'', priceUsd = ''0'',
                   fdv = 0, liquidity = 0, found = False\<rparr>"

text \<open>Step 3: the primary source. Any throw inside the \<open>try\<close> leaves the variables as they are.\<close>

definition parseJupiter :: "string \<Rightarrow> JupData Response settled \<Rightarrow> TokenVars \<Rightarrow> TokenVars" where
  "parseJupiter mint jupRes v =
     (case jupRes of
        Rejected \<Rightarrow> v
      | Fulfilled res \<Rightarrow>
          if \<not> ok res then v
          else (case body res of
                  None \<Rightarrow> v
                | Some jupData \<Rightarrow>
                    (case jup_data jupData of
                       None \<Rightarrow> v
                     | Some d \<Rightarrow>
                         (case d mint of
                            None \<Rightarrow> v
                          | Some info \<Rightarrow>
                              (let v1 = v\<lparr>priceUsd := orElse (info_price info) ''0''\<rparr>
                               in case info_extraInfo info of
                                    None \<Rightarrow> v1
                                  | Some ei \<Rightarrow>
                                      (let sym = orElse (ei_symbol ei) (symbol v1)
                                       in v1\<lparr>symbol := sym, tokenName := sym, found := True\<rparr>))))))"

text \<open>
  \<open>pairs.sort((a, b) => b.liquidity.usd - a.liquidity.usd)[0]\<close>: a stable sort by
  descending liquidity. The comparator reads \<open>liquidity.usd\<close> unguarded, so it throws
  when it meets a pair without \<open>liquidity\<close>; it is called as soon as there are two
  pairs.
\<close>

definition sortThrows :: "DexPair list \<Rightarrow> bool" where
  "sortThrows pairs = (length pairs \<ge> 2 \<and> list_ex (\<lambda>p. pair_liquidity p = None) pairs)"

definition bestPairOf :: "DexPair list \<Rightarrow> DexPair" where
  "bestPairOf pairs = hd (sort_key (\<lambda>p. - orZero (pair_liquidity p)) pairs)"

text \<open>Step 4: the secondary source. The sort is the first statement that can throw.\<close>

definition parseDex :: "DexData Response settled \<Rightarrow> TokenVars \<Rightarrow> TokenVars" where
  "parseDex dexRes v =
     (case dexRes of
        Rejected \<Rightarrow> v
      | Fulfilled res \<Rightarrow>
          if \<not> ok res then v
          else (case body res of
                  None \<Rightarrow> v
                | Some dexData \<Rightarrow>
                    (case dex_pairs dexData of
                       None \<Rightarrow> v
                     | Some pairs \<Rightarrow>
                         if pairs = [] \<or> sortThrows pairs then v
                         else (let bestPair = bestPairOf pairs
                               in v\<lparr>symbol := (if symbol v = ''UNKNOWN''
                                               then bt_symbol (pair_baseToken bestPair) else symbol v),
                                    tokenName := (if tokenName v = ''Unknown Token''
                                               then bt_name (pair_baseToken bestPair) else tokenName v),
                                    priceUsd := (if priceUsd v = ''0''
                                               then pair_priceUsd bestPair else priceUsd v),
                                    fdv := orZero (pair_fdv bestPair),
                                    liquidity := orZero (pair_liquidity bestPair),
                                    found := True\<rparr>))))"

type_synonym tokenCache = "string \<rightharpoonup> TokenMarketData \<times> int"

text \<open>
  \<open>fetchTokenMarketData\<close>: \<open>now\<close> is the clock at the cache read, \<open>now'\<close> the clock at the
  cache write. The result is the returned value, the cache afterwards and the number of
  network requests issued.
\<close>

definition fetchTokenMarketData :: "tokenCache \<Rightarrow> int \<Rightarrow> string \<Rightarrow> JupData Response settled
    \<Rightarrow> DexData Response settled \<Rightarrow> int \<Rightarrow> TokenMarketData option \<times> tokenCache \<times> nat" where
  "fetchTokenMarketData cache now mint jupRes dexRes now' =
     (case cacheHit cache now mint of
        Some d \<Rightarrow> (Some d, cache, 0)
      | None \<Rightarrow>
          (let v = parseDex dexRes (parseJupiter mint jupRes initialVars)
           in if \<not> found v then (None, cache, 2)
              else (let result = \<lparr>symbol = symbol v, tokenName = tokenName v,
                                   priceUsd = priceUsd v, fdv = fdv v, liquidity = liquidity v\<rparr>
                    in (Some result, cache(mint \<mapsto> (result, now')), 2))))"

type_synonym rugCache = "string \<rightharpoonup> RugCheckData \<times> int"

definition rugError :: RugCheckData where
  "rugError = \<lparr>score = 0, riskLevel = ''error'', isNew = False\<rparr>"

definition fetchRugCheckData :: "rugCache \<Rightarrow> int \<Rightarrow> string \<Rightarrow> RugJson Response rpc \<Rightarrow> int
    \<Rightarrow> RugCheckData \<times> rugCache \<times> nat" where
  "fetchRugCheckData cache now mint reply now' =
     (case cacheHit cache now mint of
        Some d \<Rightarrow> (d, cache, 0)
      | None \<Rightarrow>
          (case reply of
             Throws m \<Rightarrow> (rugError, cache, 1)
           | Returns res \<Rightarrow>
               if status res = 404
               then (\<lparr>score = 0, riskLevel = ''unknown'', isNew = True\<rparr>, cache, 1)
               else if \<not> ok res then (rugError, cache, 1)
               else (case body res of
                       None \<Rightarrow> (rugError, cache, 1)
                     | Some data \<Rightarrow>
                         (let score = orZero (rug_score data);
                              level = (if score > 2000 then ''danger''
                                       else if score > 500 then ''warn'' else ''good'');
                              result = \<lparr>score = score, riskLevel = level, isNew = False\<rparr>
                          in (result, cache(mint \<mapsto> (result, now')), 1)))))"

section \<open>Transaction classifier\<close>

text \<open>
  The parts of a parsed transaction that the classifier reads, as the ledger's reply
  carries them. \<open>accountKeys\<close> holds the base58 text of each key; an account is
  identified by that text throughout. \<open>uiAmount\<close> is \<open>uiTokenAmount.uiAmount\<close>, which may
  be null; it and the native balances are the decimal numbers of the reply, which the
  program reads as binary64 numbers.
\<close>

record TokenBalance =
  mint :: string
  owner :: "string option"
  uiAmount :: "rat option"

record TxMeta =
  logMessages :: "string list option"
  preBalances :: "int list"
  postBalances :: "int list"
  preTokenBalances :: "TokenBalance list option"
  postTokenBalances :: "TokenBalance list option"

record ParsedTx =
  accountKeys :: "string list"
  meta :: "TxMeta option"

datatype TradeType = SWAP | TRANSFER | WRAP

record TradeDetails =
  signature :: string
  tokenMint :: string
  tokenData :: "TokenMarketData option"
  rugData :: "RugCheckData option"
  tokenChange :: jsnum
  solChange :: jsnum
  isBuy :: bool
  type :: TradeType

definition isSwapLog :: "string \<Rightarrow> bool" where
  "isSwapLog l = (str_includes l ''Program JUP''
                  \<or> str_includes l ''Program 675kPX9M''
                  \<or> str_includes l ''Instruction: Swap'')"

text \<open>\<open>xs.findIndex(P)\<close>, with \<open>None\<close> for \<open>-1\<close>.\<close>

fun findIndex :: "('a \<Rightarrow> bool) \<Rightarrow> 'a list \<Rightarrow> nat option" where
  "findIndex P [] = None"
| "findIndex P (x # xs) = (if P x then Some 0 else map_option Suc (findIndex P xs))"

text \<open>\<open>xs[i]\<close>, with \<open>None\<close> for \<open>undefined\<close>.\<close>

definition nthOpt :: "'a list \<Rightarrow> nat \<Rightarrow> 'a option" where
  "nthOpt xs i = (if i < length xs then Some (xs ! i) else None)"

text \<open>\<open>x || []\<close>\<close>

definition orEmpty :: "'a list option \<Rightarrow> 'a list" where
  "orEmpty x = (case x of None \<Rightarrow> [] | Some xs \<Rightarrow> xs)"

text \<open>\<open>(postNative - preNative) / 1e9\<close>; arithmetic on \<open>undefined\<close> gives \<open>NaN\<close>.\<close>

definition nativeDiffOf :: "TxMeta \<Rightarrow> nat \<Rightarrow> jsnum" where
  "nativeDiffOf m accountIndex =
     (case (nthOpt (preBalances m) accountIndex, nthOpt (postBalances m) accountIndex) of
        (Some preNative, Some postNative) \<Rightarrow>
          Num (round64 (round64 (round64 (of_int postNative) - round64 (of_int preNative))
                         / 10 ^ 9))
      | _ \<Rightarrow> NaN)"

text \<open>A \<open>Set\<close> of strings in insertion order, and \<open>allMints\<close> as the two \<open>forEach\<close> fill it.\<close>

definition addMint :: "string list \<Rightarrow> string \<Rightarrow> string list" where
  "addMint s m = (if m \<in> set s then s else s @ [m])"

definition allMints :: "TokenBalance list \<Rightarrow> TokenBalance list \<Rightarrow> string list" where
  "allMints preTokenBals postTokenBals =
     foldl addMint (foldl addMint [] (map mint preTokenBals)) (map mint postTokenBals)"

text \<open>\<open>balObj?.uiTokenAmount.uiAmount || 0\<close>\<close>

definition amountOf :: "TokenBalance option \<Rightarrow> rat" where
  "amountOf balObj =
     (case balObj of None \<Rightarrow> 0 | Some b \<Rightarrow> orZero (map_option round64 (uiAmount b)))"

text \<open>
  \<open>diff\<close> for one mint: the first post-balance and the first pre-balance of that mint
  owned by the watched account.
\<close>

definition tokenDiff :: "TokenBalance list \<Rightarrow> TokenBalance list \<Rightarrow> string \<Rightarrow> string \<Rightarrow> rat" where
  "tokenDiff preTokenBals postTokenBals pubKey m =
     (let preBalObj = find (\<lambda>b. mint b = m \<and> owner b = Some pubKey) preTokenBals;
          postBalObj = find (\<lambda>b. mint b = m \<and> owner b = Some pubKey) postTokenBals;
          amountPre = amountOf preBalObj;
          amountPost = amountOf postBalObj
      in round64 (amountPost - amountPre))"

record ScanVars =
  targetMint :: string
  targetChange :: rat
  wSolDiff :: rat

text \<open>The body of \<open>for (const mint of allMints)\<close>.\<close>

definition scanMint :: "TokenBalance list \<Rightarrow> TokenBalance list \<Rightarrow> string \<Rightarrow> ScanVars \<Rightarrow> string
    \<Rightarrow> ScanVars" where
  "scanMint preTokenBals postTokenBals pubKey v m =
     (let diff = tokenDiff preTokenBals postTokenBals pubKey m
      in if \<bar>diff\<bar> > 0
         then (if m = WSOL_MINT then v\<lparr>wSolDiff := round64 (wSolDiff v + diff)\<rparr>
               else if \<bar>diff\<bar> > \<bar>targetChange v\<bar>
                    then v\<lparr>targetMint := m, targetChange := diff\<rparr>
                    else v)
         else v)"

definition scanMints :: "TokenBalance list \<Rightarrow> TokenBalance list \<Rightarrow> string \<Rightarrow> ScanVars" where
  "scanMints preTokenBals postTokenBals pubKey =
     foldl (scanMint preTokenBals postTokenBals pubKey)
       \<lparr>targetMint = [], targetChange = 0, wSolDiff = 0\<rparr>
       (allMints preTokenBals postTokenBals)"



text \<open>
  Steps 3 to 6 of \<open>fetchLastTransactionDetails\<close>, from the fetched transaction to the
  returned details. \<open>tokenLookup\<close> and \<open>rugLookup\<close> stand for the two resolver calls
  made for a swap, whose results are stored in the details unchanged.
\<close>

definition transactionDetails :: "(string \<Rightarrow> TokenMarketData option) \<Rightarrow> (string \<Rightarrow> RugCheckData)
    \<Rightarrow> ParsedTx option \<Rightarrow> string \<Rightarrow> string \<Rightarrow> TradeDetails option" where
  "transactionDetails tokenLookup rugLookup tx pubKey sig =
     (case tx of
        None \<Rightarrow> None
      | Some t \<Rightarrow>
     (case meta t of
        None \<Rightarrow> None
      | Some m \<Rightarrow>
     (let isSwapProgram = list_ex isSwapLog (orEmpty (logMessages m))
      in case findIndex (\<lambda>k. k = pubKey) (accountKeys t) of
           None \<Rightarrow> None
         | Some accountIndex \<Rightarrow>
     (let nativeDiff = nativeDiffOf m accountIndex;
          v = scanMints (orEmpty (preTokenBalances m)) (orEmpty (postTokenBalances m)) pubKey;
          totalSolFlow = jadd nativeDiff (Num (wSolDiff v))
      in if targetMint v \<noteq> []
         then (let isRealSwap = isSwapProgram;
                   isRealSwap = (if \<not> isRealSwap \<and> jgt (jabs nativeDiff) (round64 (5 / 100))
                                 then True else isRealSwap)
               in if isRealSwap
                  then Some \<lparr>signature = sig, tokenMint = targetMint v,
                              tokenData = tokenLookup (targetMint v),
                              rugData = Some (rugLookup (targetMint v)),
                              tokenChange = Num (targetChange v), solChange = totalSolFlow,
                              isBuy = (targetChange v > 0), type = SWAP\<rparr>
                  else Some \<lparr>signature = sig, tokenMint = targetMint v,
                              tokenData = None, rugData = None,
                              tokenChange = Num (targetChange v), solChange = nativeDiff,
                              isBuy = False, type = TRANSFER\<rparr>)
         else if jgt (jabs nativeDiff) (round64 (1 / 1000))
                 \<and> \<bar>wSolDiff v\<bar> > round64 (1 / 1000)
                 \<and> jlt (jabs totalSolFlow) (round64 (1 / 100))
         then Some \<lparr>signature = sig, tokenMint = ''WSOL'', tokenData = None, rugData = None,
                     tokenChange = Num (wSolDiff v), solChange = nativeDiff,
                     isBuy = (wSolDiff v > 0), type = WRAP\<rparr>
         else Some \<lparr>signature = sig, tokenMint = ''SOL'', tokenData = None, rugData = None,
                     tokenChange = totalSolFlow, solChange = totalSolFlow,
                     isBuy = jgt totalSolFlow 0, type = TRANSFER\<rparr>))))"

text \<open>
  \<open>fetchLastTransactionDetails\<close>: the retry loop, then \<open>getParsedTransaction\<close>, whose throw is
  caught and gives \<open>null\<close>.
\<close>

definition fetchLastTransactionDetails :: "(nat \<Rightarrow> SignatureInfo list rpc)
    \<Rightarrow> (string \<Rightarrow> ParsedTx option rpc) \<Rightarrow> (string \<Rightarrow> TokenMarketData option)
    \<Rightarrow> (string \<Rightarrow> RugCheckData) \<Rightarrow> string \<Rightarrow> TradeDetails option" where
  "fetchLastTransactionDetails replies getParsedTransaction tokenLookup rugLookup pubKey =
     (case resolveSignature replies of
        None \<Rightarrow> None
      | Some sig \<Rightarrow>
          (case getParsedTransaction sig of
             Throws m \<Rightarrow> None
           | Returns tx \<Rightarrow> transactionDetails tokenLookup rugLookup tx pubKey sig))"

section \<open>Price formatting\<close>

text \<open>The decimal digits of a non-negative integer, most significant first.\<close>

definition digitChars :: string where
  "digitChars = ''0123456789''"

function digitsOf :: "int \<Rightarrow> string" where
  "digitsOf n = (if n < 10 then [digitChars ! nat n]
                 else digitsOf (n div 10) @ [digitChars ! nat (n mod 10)])"
  by pat_completeness auto
termination
  by (relation "measure nat") auto

declare digitsOf.simps [simp del]

text \<open>
  The text of a binary64 number \<open>x\<close> from \<open>10^21\<close> on, as the language standard defines
  the conversion of a number to a string: with \<open>k\<close> as small as possible, the integer \<open>s\<close>
  of \<open>k\<close> decimal digits and the exponent \<open>n\<close> for which \<open>s * 10^(n - k)\<close> rounds to
  \<open>x\<close>, the nearest to \<open>x\<close> if there are several (the even \<open>s\<close> on a tie); the text is
  the first digit of \<open>s\<close>, a point and the other digits if there are any, \<open>e+\<close> and
  \<open>n - 1\<close>. Here \<open>m\<close> is the number of digits of \<open>x\<close>, an integer, and \<open>shortestAt\<close> looks
  for \<open>s\<close> among the two integers next to \<open>x / 10^(m - k)\<close>; the value \<open>10^m\<close>, which is
  \<open>s = 1\<close> with \<open>n = m + 1\<close>, appears there as \<open>10^k\<close>.
\<close>

definition shortestAt :: "rat \<Rightarrow> nat \<Rightarrow> nat \<Rightarrow> int option" where
  "shortestAt x m k =
     (let scale = 10 ^ (m - k);
          f = \<lfloor>x / scale\<rfloor>;
          cands = filter (\<lambda>s. 10 ^ (k - 1) \<le> s \<and> s \<le> 10 ^ k \<and> round64 (of_int s * scale) = x)
                    [f, f + 1]
      in case cands of
           [] \<Rightarrow> None
         | [s] \<Rightarrow> Some s
         | s1 # s2 # _ \<Rightarrow>
             (let d1 = \<bar>of_int s1 * scale - x\<bar>; d2 = \<bar>of_int s2 * scale - x\<bar>
              in if d1 < d2 then Some s1 else if d2 < d1 then Some s2
                 else if even s1 then Some s1 else Some s2))"

definition numberToString :: "rat \<Rightarrow> string" where
  "numberToString x =
     (let m = length (digitsOf \<lfloor>x\<rfloor>);
          hits = List.map_filter (\<lambda>k. map_option (\<lambda>s. (k, s)) (shortestAt x m k)) [1..<18]
      in case hits of
           [] \<Rightarrow> []
         | (k, s) # _ \<Rightarrow>
             (let ds = (if s = 10 ^ k then ''1'' else digitsOf s);
                  n = (if s = 10 ^ k then m + 1 else m)
              in (if length ds = 1 then ds else take 1 ds @ ''.'' @ drop 1 ds)
                 @ ''e+'' @ digitsOf (int n - 1)))"

text \<open>
  \<open>x.toFixed(f)\<close> on a finite number, as the language standard defines it on the exact
  value of \<open>x\<close>: the sign, then the integer \<open>n\<close> nearest to \<open>x * 10^f\<close> (the larger one on
  a tie), padded to at least \<open>f + 1\<close> digits, with a point before the last \<open>f\<close>. From
  \<open>10^21\<close> on the standard gives the number's ordinary text instead.
\<close>

definition toFixed :: "rat \<Rightarrow> nat \<Rightarrow> string" where
  "toFixed x0 f =
     (let s = (if x0 < 0 then ''-'' else []);
          x = (if x0 < 0 then - x0 else x0)
      in if x \<ge> 10 ^ 21 then s @ numberToString x
         else (let n = \<lfloor>x * 10 ^ f + 1 / 2\<rfloor>;
                   m = digitsOf n;
                   m = (if f \<noteq> 0
                        then (let k = length m;
                                  m = (if k \<le> f then replicate (f + 1 - k) (CHR ''0'') @ m else m);
                                  k = length m
                              in take (k - f) m @ ''.'' @ drop (k - f) m)
                        else m)
               in s @ m))"

text \<open>
  \<open>formatPrice\<close>. Its argument stands for the text \<open>priceStr\<close>: the decimal value of
  the number that \<open>parseFloat\<close> reads at the start of the text, or \<open>NaN\<close> if there is none;
  \<open>price\<close> is that value as a binary64 number.
\<close>

definition formatPrice :: "jsnum \<Rightarrow> string" where
  "formatPrice priceStr =
     (case priceStr of
        NaN \<Rightarrow> ''$0''
      | Num dec \<Rightarrow>
          (let price = round64 dec
           in if price = 0 then ''$0''
              else if price < round64 (1 / 10 ^ 8) then ''$'' @ toFixed price 10
              else if price < round64 (1 / 10 ^ 5) then ''$'' @ toFixed price 8
              else if price < round64 (1 / 100) then ''$'' @ toFixed price 6
              else if price < 1 then ''$'' @ toFixed price 4
              else ''$'' @ toFixed price 2))"

text \<open>
  The precision the specification assigns to a price by its magnitude bracket, and the
  number of characters of a text after its last decimal point.
\<close>

definition bracketPrecision :: "rat \<Rightarrow> nat" where
  "bracketPrecision x =
     (if x \<ge> 1 then 2
      else if x \<ge> 1 / 100 then 4
      else if x \<ge> 1 / 10 ^ 5 then 6
      else if x \<ge> 1 / 10 ^ 8 then 8
      else 10)"

definition decimalsOf :: "string \<Rightarrow> nat" where
  "decimalsOf s = (if CHR ''.'' \<in> set s
                   then length (takeWhile (\<lambda>c. c \<noteq> CHR ''.'') (rev s)) else 0)"

section \<open>Dispatch of the updates of a batch\<close>

text \<open>
  Step 3 of the polling loop: \<open>for (const batch of updateBatches) { await
  Promise.all(batch.map(async ...)); ... }\<close>. \<open>pending\<close> are the batches not yet reached,
  \<open>toStart\<close> the tasks of the current batch that \<open>map\<close> has not yet called, \<open>inFlight\<close>
  the tasks started and not yet settled. \<open>map\<close> starts the tasks one after the other;
  started tasks settle in any order once \<open>map\<close> has returned; the loop goes on to the
  next batch when \<open>Promise.all\<close> has resolved, that is, when all have settled.
\<close>

record 'a Dispatch =
  pending :: "'a list list"
  toStart :: "'a list"
  inFlight :: "'a list"

inductive dispatchStep :: "'a Dispatch \<Rightarrow> 'a Dispatch \<Rightarrow> bool" where
  nextBatch: "toStart s = [] \<Longrightarrow> inFlight s = [] \<Longrightarrow> pending s = batch # rest \<Longrightarrow>
     dispatchStep s \<lparr>pending = rest, toStart = batch, inFlight = []\<rparr>"
| start: "toStart s = t # ts \<Longrightarrow>
     dispatchStep s (s\<lparr>toStart := ts, inFlight := inFlight s @ [t]\<rparr>)"
| settle: "toStart s = [] \<Longrightarrow> t \<in> set (inFlight s) \<Longrightarrow>
     dispatchStep s (s\<lparr>inFlight := remove1 t (inFlight s)\<rparr>)"

text \<open>The states the dispatch of \<open>updates\<close> can reach.\<close>

inductive dispatchReach :: "'a list \<Rightarrow> 'a Dispatch \<Rightarrow> bool" where
  init: "chunkArray updates MAX_CONCURRENT_TASKS = Some updateBatches \<Longrightarrow>
     dispatchReach updates \<lparr>pending = updateBatches, toStart = [], inFlight = []\<rparr>"
| step: "dispatchReach updates s \<Longrightarrow> dispatchStep s s' \<Longrightarrow> dispatchReach updates s'"

section \<open>Properties of the balance change detector\<close>

lemma moved_lamports:
  "moved cache (info, w) \<longleftrightarrow> \<bar>curOf info - cachedBalance cache (address w)\<bar> > 1"
proof -
  have "\<bar>lamportsToSol k\<bar> > 1 / 10 ^ 9 \<longleftrightarrow> \<bar>k\<bar> > 1" for k :: int
  proof -
    have "\<bar>lamportsToSol k\<bar> = of_int \<bar>k\<bar> / 10 ^ 9"
      by (simp add: lamportsToSol_def)
    then have "\<bar>lamportsToSol k\<bar> > 1 / 10 ^ 9 \<longleftrightarrow> (of_int \<bar>k\<bar> :: rat) > 1"
      by (simp add: divide_less_cancel)
    also have "\<dots> \<longleftrightarrow> \<bar>k\<bar> > 1" by linarith
    finally show ?thesis .
  qed
  then show ?thesis by (simp add: moved_def)
qed

lemma detect_Cons:
  "detectChanges (info # infos) (w # ws) cache acc =
     detectChanges infos ws
       (if curOf info = cachedBalance cache (address w) then cache
        else cache(address w \<mapsto> curOf info))
       (if moved cache (info, w) then acc @ [mkUpdate cache (info, w)] else acc)"
proof -
  have "moved cache (info, w) \<Longrightarrow> curOf info \<noteq> cachedBalance cache (address w)"
    by (auto simp: moved_lamports)
  then show ?thesis
    by (auto simp: Let_def moved_def mkUpdate_def)
qed

lemma moved_upd_other:
  "address (snd p) \<noteq> a \<Longrightarrow> moved (cache(a \<mapsto> v)) p = moved cache p"
  by (simp add: moved_def cachedBalance_def)

lemma mkUpdate_upd_other:
  "address (snd p) \<noteq> a \<Longrightarrow> mkUpdate (cache(a \<mapsto> v)) p = mkUpdate cache p"
  by (simp add: mkUpdate_def cachedBalance_def)

lemma map_filter_cong:
  "(\<And>x. x \<in> set xs \<Longrightarrow> P x = Q x \<and> f x = g x) \<Longrightarrow> map f (filter P xs) = map g (filter Q xs)"
  by (induction xs) auto

lemma closed_upd_other:
  assumes "a \<notin> address ` set ws"
  shows "map (mkUpdate (cache(a \<mapsto> v))) (filter (moved (cache(a \<mapsto> v))) (zip infos ws))
       = map (mkUpdate cache) (filter (moved cache) (zip infos ws))"
proof (rule map_filter_cong)
  fix p assume "p \<in> set (zip infos ws)"
  then have "snd p \<in> set ws" by (metis prod.collapse set_zip_rightD)
  with assms have "address (snd p) \<noteq> a" by (metis imageI)
  then show "moved (cache(a \<mapsto> v)) p = moved cache p \<and> mkUpdate (cache(a \<mapsto> v)) p = mkUpdate cache p"
    by (simp add: moved_upd_other mkUpdate_upd_other)
qed

lemma detect_updates:
  assumes "length infos = length chunk" "distinct (map address chunk)"
  shows "snd (detectChanges infos chunk cache acc) =
           Inr (acc @ map (mkUpdate cache) (filter (moved cache) (zip infos chunk)))"
  using assms
proof (induction infos chunk arbitrary: cache acc rule: list_induct2)
  case Nil
  then show ?case by simp
next
  case (Cons info infos w ws)
  have dist: "distinct (map address ws)" and notin: "address w \<notin> address ` set ws"
    using Cons.prems by auto
  show ?case
    unfolding detect_Cons
    by (simp add: Cons.IH[OF dist] closed_upd_other[OF notin] del: detectChanges.simps)
qed

lemma detect_cache_other:
  "a \<notin> address ` set chunk \<Longrightarrow> fst (detectChanges infos chunk cache acc) a = cache a"
proof (induction infos arbitrary: chunk cache acc)
  case Nil
  then show ?case by simp
next
  case (Cons info infos)
  show ?case
  proof (cases chunk)
    case Nil
    then show ?thesis by simp
  next
    case (Cons w ws)
    with Cons.prems have "a \<noteq> address w" "a \<notin> address ` set ws" by auto
    then show ?thesis
      unfolding Cons detect_Cons by (simp add: Cons.IH del: detectChanges.simps)
  qed
qed

lemma detect_cache_read:
  assumes "length infos = length chunk" "distinct (map address chunk)" "i < length chunk"
  shows "cachedBalance (fst (detectChanges infos chunk cache acc)) (address (chunk ! i)) = curOf (infos ! i)"
  using assms
proof (induction infos chunk arbitrary: cache acc i rule: list_induct2)
  case Nil
  then show ?case by simp
next
  case (Cons info infos w ws)
  have dist: "distinct (map address ws)" and notin: "address w \<notin> address ` set ws"
    using Cons.prems by auto
  show ?case
  proof (cases i)
    case 0
    have "cachedBalance (if curOf info = cachedBalance cache (address w) then cache
        else cache(address w \<mapsto> curOf info)) (address w) = curOf info"
      by (simp add: cachedBalance_def)
    then show ?thesis
      unfolding detect_Cons using 0 detect_cache_other[OF notin]
      by (simp add: cachedBalance_def del: detectChanges.simps)
  next
    case (Suc j)
    then show ?thesis
      unfolding detect_Cons using Cons.IH[OF dist, of j] Cons.prems
      by (simp del: detectChanges.simps)
  qed
qed

lemma filter_zip_address:
  assumes "length infos = length chunk" "distinct (map address chunk)" "i < length chunk"
  shows "filter (\<lambda>p. address (snd p) = address (chunk ! i)) (zip infos chunk) = [(infos ! i, chunk ! i)]"
  using assms
proof (induction infos chunk arbitrary: i rule: list_induct2)
  case Nil
  then show ?case by simp
next
  case (Cons info infos w ws)
  have dist: "distinct (map address ws)" and notin: "address w \<notin> address ` set ws"
    using Cons.prems by auto
  have none: "filter (\<lambda>p. address (snd p) = address w) (zip infos ws) = []"
  proof -
    have "address (snd p) \<noteq> address w" if "p \<in> set (zip infos ws)" for p
    proof -
      from that have "snd p \<in> set ws" by (metis prod.collapse set_zip_rightD)
      with notin show ?thesis by (metis imageI)
    qed
    then show ?thesis by (simp add: filter_empty_conv)
  qed
  show ?case
  proof (cases i)
    case 0
    then show ?thesis by (simp add: none)
  next
    case (Suc j)
    then have j: "j < length ws" using Cons.prems by simp
    then have "ws ! j \<in> set ws" by simp
    with notin have "address w \<noteq> address (ws ! j)" by (metis imageI)
    then show ?thesis using Suc Cons.IH[OF dist j] by simp
  qed
qed

lemma pollChunk_success:
  assumes "length infos = length chunk" "distinct (map address chunk)"
  shows "snd (pollChunk (Returns infos) chunk st)
           = map (mkUpdate (balanceCache st)) (filter (moved (balanceCache st)) (zip infos chunk))"
    and "balanceCache (fst (pollChunk (Returns infos) chunk st))
           = fst (detectChanges infos chunk (balanceCache st) [])"
proof -
  obtain c r where d: "detectChanges infos chunk (balanceCache st) [] = (c, r)"
    by (cases "detectChanges infos chunk (balanceCache st) []")
  from detect_updates[OF assms, of "balanceCache st" "[]"] d
  have r: "r = Inr (map (mkUpdate (balanceCache st)) (filter (moved (balanceCache st)) (zip infos chunk)))"
    by simp
  show "snd (pollChunk (Returns infos) chunk st)
           = map (mkUpdate (balanceCache st)) (filter (moved (balanceCache st)) (zip infos chunk))"
    by (simp add: pollChunk_def d r Let_def)
  show "balanceCache (fst (pollChunk (Returns infos) chunk st))
           = fst (detectChanges infos chunk (balanceCache st) [])"
    by (simp add: pollChunk_def d r Let_def)
qed

lemma updates_for_account:
  assumes "length infos = length chunk" "distinct (map address chunk)" "i < length chunk"
  shows "filter (\<lambda>u. address (wallet u) = address (chunk ! i)) (snd (pollChunk (Returns infos) chunk st))
       = (if moved (balanceCache st) (infos ! i, chunk ! i)
          then [mkUpdate (balanceCache st) (infos ! i, chunk ! i)] else [])"
proof -
  have "filter (\<lambda>u. address (wallet u) = a) (map (mkUpdate c) (filter (moved c) zs))
      = map (mkUpdate c) (filter (moved c) (filter (\<lambda>p. address (snd p) = a) zs))" for a c zs
    by (induction zs) (auto simp: mkUpdate_def)
  then have "filter (\<lambda>u. address (wallet u) = address (chunk ! i)) (snd (pollChunk (Returns infos) chunk st))
      = map (mkUpdate (balanceCache st)) (filter (moved (balanceCache st)) [(infos ! i, chunk ! i)])"
    by (simp only: pollChunk_success(1)[OF assms(1,2)] filter_zip_address[OF assms])
  then show ?thesis by simp
qed

text \<open>
  Claim C2. In a batch whose balance query succeeded (one reply per account, accounts
  with distinct addresses), the updates of the batch hold a record for an account if and
  only if the absolute difference between the queried balance and the cached one,
  in SOL, is strictly greater than 0.000000001, and then exactly one, carrying that
  account, the queried balance and the signed difference. After the batch, reading the
  cache for any account of the batch gives the queried balance, whether or not the
  change passed the threshold.
\<close>

theorem change_record_iff_threshold:
  assumes "length infos = length chunk" and "distinct (map address chunk)" and "i < length chunk"
  shows "filter (\<lambda>u. address (wallet u) = address (chunk ! i)) (snd (pollChunk (Returns infos) chunk st))
       = (if \<bar>lamportsToSol (curOf (infos ! i) - cachedBalance (balanceCache st) (address (chunk ! i)))\<bar>
               > 1 / 10 ^ 9
          then [\<lparr>wallet = chunk ! i, cur = curOf (infos ! i),
                 diffSol = lamportsToSol (curOf (infos ! i) - cachedBalance (balanceCache st) (address (chunk ! i)))\<rparr>]
          else [])
     \<and> cachedBalance (balanceCache (fst (pollChunk (Returns infos) chunk st))) (address (chunk ! i))
         = curOf (infos ! i)"
  using updates_for_account[OF assms, of st] detect_cache_read[OF assms, of "balanceCache st" "[]"]
  by (simp add: pollChunk_success(2)[OF assms(1,2)] moved_def mkUpdate_def)

theorem change_record_iff_threshold_witness:
  "length [Some \<lparr>lamports = 7\<rparr>, None] = length [\<lparr>address = ''A'', name = ''a'', emoji = ''''\<rparr>, \<lparr>address = ''B'', name = ''b'', emoji = ''''\<rparr>]
   \<and> distinct (map address [\<lparr>address = ''A'', name = ''a'', emoji = ''''\<rparr>, \<lparr>address = ''B'', name = ''b'', emoji = ''''\<rparr>])
   \<and> (0::nat) < length [\<lparr>address = ''A'', name = ''a'', emoji = ''''\<rparr>, \<lparr>address = ''B'', name = ''b'', emoji = ''''\<rparr>]
   \<and> filter (\<lambda>u. address (wallet u) = ''A'')
        (snd (pollChunk (Returns [Some \<lparr>lamports = 7\<rparr>, None])
           [\<lparr>address = ''A'', name = ''a'', emoji = ''''\<rparr>, \<lparr>address = ''B'', name = ''b'', emoji = ''''\<rparr>]
           \<lparr>balanceCache = [''A'' \<mapsto> 5, ''B'' \<mapsto> 1], dynamicInterval = 1000\<rparr>))
      = [\<lparr>wallet = \<lparr>address = ''A'', name = ''a'', emoji = ''''\<rparr>, cur = 7, diffSol = 2 / 10 ^ 9\<rparr>]"
  using change_record_iff_threshold[of "[Some \<lparr>lamports = 7\<rparr>, None]"
      "[\<lparr>address = ''A'', name = ''a'', emoji = ''''\<rparr>, \<lparr>address = ''B'', name = ''b'', emoji = ''''\<rparr>]" 0
      "\<lparr>balanceCache = [''A'' \<mapsto> 5, ''B'' \<mapsto> 1], dynamicInterval = 1000\<rparr>"]
  by (simp add: curOf_def cachedBalance_def lamportsToSol_def)

lemma pollChunk_Throws:
  "balanceCache (fst (pollChunk (Throws m) chunk st)) = balanceCache st"
  "snd (pollChunk (Throws m) chunk st) = []"
  by (simp_all add: pollChunk_def)

lemma pollChunk_cache_other:
  "a \<notin> address ` set chunk \<Longrightarrow> balanceCache (fst (pollChunk reply chunk st)) a = balanceCache st a"
proof (cases reply)
  case (Throws m)
  then show ?thesis by (simp add: pollChunk_def)
next
  case (Returns infos)
  assume a: "a \<notin> address ` set chunk"
  obtain c r where d: "detectChanges infos chunk (balanceCache st) [] = (c, r)"
    by (cases "detectChanges infos chunk (balanceCache st) []")
  from detect_cache_other[OF a, of infos "balanceCache st" "[]"] d have "c a = balanceCache st a"
    by simp
  then show ?thesis using Returns d
    by (cases r) (simp_all add: pollChunk_def Let_def)
qed

lemma pollChunk_updates_cache_only:
  "balanceCache st1 = balanceCache st2 \<Longrightarrow>
     snd (pollChunk reply chunk st1) = snd (pollChunk reply chunk st2)
     \<and> balanceCache (fst (pollChunk reply chunk st1)) = balanceCache (fst (pollChunk reply chunk st2))"
  by (cases reply) (auto simp: pollChunk_def Let_def split: prod.splits sum.splits)

lemma pollChunks_Cons:
  "fst (pollChunks replies k (chunk # chunks) st)
     = fst (pollChunks replies (Suc k) chunks (fst (pollChunk (replies k) chunk st)))"
  "snd (pollChunks replies k (chunk # chunks) st)
     = snd (pollChunk (replies k) chunk st)
       # snd (pollChunks replies (Suc k) chunks (fst (pollChunk (replies k) chunk st)))"
  by (simp_all add: Let_def case_prod_beta)

lemma pollChunks_length: "length (snd (pollChunks replies k chunks st)) = length chunks"
  by (induction chunks arbitrary: k st) (simp_all add: pollChunks_Cons del: pollChunks.simps(2))

lemma pollChunks_failed_updates:
  "j < length chunks \<Longrightarrow> replies (k + j) = Throws m \<Longrightarrow> snd (pollChunks replies k chunks st) ! j = []"
proof (induction chunks arbitrary: k j st)
  case Nil
  then show ?case by simp
next
  case (Cons chunk chunks)
  show ?case
  proof (cases j)
    case 0
    with Cons.prems show ?thesis
      by (simp add: pollChunks_Cons pollChunk_Throws del: pollChunks.simps(2))
  next
    case (Suc i)
    with Cons.prems have "i < length chunks" "replies (Suc k + i) = Throws m" by simp_all
    from Cons.IH[OF this] show ?thesis using Suc
      by (simp add: pollChunks_Cons del: pollChunks.simps(2))
  qed
qed

lemma pollChunks_cache_failed:
  assumes "\<And>j. j < length chunks \<Longrightarrow> a \<in> address ` set (chunks ! j) \<Longrightarrow> \<exists>m. replies (k + j) = Throws m"
  shows "balanceCache (fst (pollChunks replies k chunks st)) a = balanceCache st a"
  using assms
proof (induction chunks arbitrary: k st)
  case Nil
  then show ?case by simp
next
  case (Cons chunk chunks)
  have first: "balanceCache (fst (pollChunk (replies k) chunk st)) a = balanceCache st a"
  proof (cases "a \<in> address ` set chunk")
    case True
    with Cons.prems[of 0] obtain m where "replies k = Throws m" by auto
    then show ?thesis by (simp add: pollChunk_Throws)
  next
    case False
    then show ?thesis by (rule pollChunk_cache_other)
  qed
  have rest: "\<And>j. j < length chunks \<Longrightarrow> a \<in> address ` set (chunks ! j) \<Longrightarrow> \<exists>m. replies (Suc k + j) = Throws m"
    using Cons.prems[of "Suc j" for j] by auto
  from Cons.IH[OF rest] first show ?case
    by (simp add: pollChunks_Cons del: pollChunks.simps(2))
qed

text \<open>
  Claim C8. A batch whose balance query throws leaves the whole balance cache as it was
  and yields no update; a later query of the same batch therefore computes its updates
  against the same cached values as if the failed query had not happened. Within a
  cycle, every failed batch contributes an empty list of updates, and the cache entry of
  an address all of whose batches failed is the one the cycle started with.
\<close>

theorem failed_batch_leaves_cache:
  "balanceCache (fst (pollChunk (Throws m) chunk st)) = balanceCache st
   \<and> snd (pollChunk (Throws m) chunk st) = []
   \<and> snd (pollChunk reply chunk (fst (pollChunk (Throws m) chunk st))) = snd (pollChunk reply chunk st)
   \<and> (\<forall>j < length chunks. (\<exists>e. replies (k + j) = Throws e) \<longrightarrow>
         snd (pollChunks replies k chunks st) ! j = [])
   \<and> ((\<forall>j < length chunks. a \<in> address ` set (chunks ! j) \<longrightarrow> (\<exists>e. replies (k + j) = Throws e)) \<longrightarrow>
         balanceCache (fst (pollChunks replies k chunks st)) a = balanceCache st a)"
proof -
  have "snd (pollChunk reply chunk (fst (pollChunk (Throws m) chunk st))) = snd (pollChunk reply chunk st)"
    using pollChunk_updates_cache_only[OF pollChunk_Throws(1)] by blast
  moreover have "\<forall>j < length chunks. (\<exists>e. replies (k + j) = Throws e) \<longrightarrow>
         snd (pollChunks replies k chunks st) ! j = []"
    using pollChunks_failed_updates by blast
  moreover have "(\<forall>j < length chunks. a \<in> address ` set (chunks ! j) \<longrightarrow> (\<exists>e. replies (k + j) = Throws e)) \<longrightarrow>
         balanceCache (fst (pollChunks replies k chunks st)) a = balanceCache st a"
    using pollChunks_cache_failed[of chunks a replies k st] by blast
  ultimately show ?thesis by (simp add: pollChunk_Throws)
qed

theorem failed_batch_leaves_cache_witness:
  "snd (pollChunks (\<lambda>i. if i = 0 then Throws (Some ''fetch failed'') else Returns [Some \<lparr>lamports = 9\<rparr>]) 0
          [[\<lparr>address = ''A'', name = ''a'', emoji = ''''\<rparr>], [\<lparr>address = ''B'', name = ''b'', emoji = ''''\<rparr>]]
          \<lparr>balanceCache = [''A'' \<mapsto> 5, ''B'' \<mapsto> 1], dynamicInterval = 1000\<rparr>) ! 0 = []
   \<and> balanceCache (fst (pollChunks (\<lambda>i. if i = 0 then Throws (Some ''fetch failed'') else Returns [Some \<lparr>lamports = 9\<rparr>]) 0
          [[\<lparr>address = ''A'', name = ''a'', emoji = ''''\<rparr>], [\<lparr>address = ''B'', name = ''b'', emoji = ''''\<rparr>]]
          \<lparr>balanceCache = [''A'' \<mapsto> 5, ''B'' \<mapsto> 1], dynamicInterval = 1000\<rparr>)) ''A'' = Some 5"
proof -
  let ?replies = "\<lambda>i::nat. if i = 0 then Throws (Some ''fetch failed'') else Returns [Some \<lparr>lamports = 9\<rparr>]"
  let ?chunks = "[[\<lparr>address = ''A'', name = ''a'', emoji = ''''\<rparr>], [\<lparr>address = ''B'', name = ''b'', emoji = ''''\<rparr>]]"
  let ?st = "\<lparr>balanceCache = [''A'' \<mapsto> 5, ''B'' \<mapsto> (1::int)], dynamicInterval = 1000\<rparr>"
  have h0: "(0::nat) < length ?chunks \<and> (\<exists>e. ?replies (0 + 0) = Throws e)" by simp
  have h1: "\<forall>j < length ?chunks. ''A'' \<in> address ` set (?chunks ! j) \<longrightarrow> (\<exists>e. ?replies (0 + j) = Throws e)"
    by (simp add: less_Suc_eq)
  from failed_batch_leaves_cache[of "Some ''x''" "[]" ?st "Returns []" ?chunks ?replies 0 "''A''"] h0 h1
  show ?thesis by simp
qed

lemma initChunk_other:
  "a \<notin> address ` set chunk \<Longrightarrow> initChunk infos chunk cache a = cache a"
  by (induction infos chunk cache rule: initChunk.induct) auto

lemma initChunk_entry:
  assumes "length infos = length chunk" "distinct (map address chunk)" "i < length chunk"
  shows "initChunk infos chunk cache (address (chunk ! i)) = Some (curOf (infos ! i))"
  using assms
proof (induction infos chunk arbitrary: cache i rule: list_induct2)
  case Nil
  then show ?case by simp
next
  case (Cons info infos w ws)
  have dist: "distinct (map address ws)" and notin: "address w \<notin> address ` set ws"
    using Cons.prems by auto
  show ?case
  proof (cases i)
    case 0
    then show ?thesis by (simp add: initChunk_other[OF notin])
  next
    case (Suc j)
    then show ?thesis using Cons.IH[OF dist, of j] Cons.prems by simp
  qed
qed

text \<open>
  Claim C10. For an account whose batched lookup returned no account info, the initial
  snapshot stores exactly 0, and after any later batch the cache reads 0 for it. If its
  cached balance \<open>b\<close> was above the threshold, the batch yields exactly one update for it,
  with current balance 0 and difference \<open>-b\<close> (in SOL). An account cached at 0 that is
  found with a balance \<open>b\<close> above the threshold yields exactly one update with current
  balance \<open>b\<close> and difference \<open>+b\<close> (in SOL).
\<close>

theorem missing_account_is_zero:
  assumes "length infos = length chunk" and "distinct (map address chunk)" and "i < length chunk"
  shows "(infos ! i = None \<longrightarrow>
            initBatch (Returns infos) chunk cache (address (chunk ! i)) = Some 0
          \<and> cachedBalance (balanceCache (fst (pollChunk (Returns infos) chunk st))) (address (chunk ! i)) = 0
          \<and> (\<bar>lamportsToSol (cachedBalance (balanceCache st) (address (chunk ! i)))\<bar> > 1 / 10 ^ 9 \<longrightarrow>
               filter (\<lambda>u. address (wallet u) = address (chunk ! i)) (snd (pollChunk (Returns infos) chunk st))
               = [\<lparr>wallet = chunk ! i, cur = 0,
                    diffSol = lamportsToSol (- cachedBalance (balanceCache st) (address (chunk ! i)))\<rparr>]))
       \<and> (\<forall>b. infos ! i = Some \<lparr>lamports = b\<rparr>
               \<and> cachedBalance (balanceCache st) (address (chunk ! i)) = 0
               \<and> \<bar>lamportsToSol b\<bar> > 1 / 10 ^ 9 \<longrightarrow>
               filter (\<lambda>u. address (wallet u) = address (chunk ! i)) (snd (pollChunk (Returns infos) chunk st))
               = [\<lparr>wallet = chunk ! i, cur = b, diffSol = lamportsToSol b\<rparr>])"
  using updates_for_account[OF assms, of st] detect_cache_read[OF assms, of "balanceCache st" "[]"]
    initChunk_entry[OF assms, of cache]
  by (auto simp: pollChunk_success(2)[OF assms(1,2)] moved_def mkUpdate_def initBatch_def curOf_def
      lamportsToSol_def)

theorem missing_account_is_zero_witness:
  "filter (\<lambda>u. address (wallet u) = ''A'')
     (snd (pollChunk (Returns [None, Some \<lparr>lamports = 4\<rparr>])
        [\<lparr>address = ''A'', name = ''a'', emoji = ''''\<rparr>, \<lparr>address = ''B'', name = ''b'', emoji = ''''\<rparr>]
        \<lparr>balanceCache = [''A'' \<mapsto> 5], dynamicInterval = 1000\<rparr>))
     = [\<lparr>wallet = \<lparr>address = ''A'', name = ''a'', emoji = ''''\<rparr>, cur = 0, diffSol = - (5 / 10 ^ 9)\<rparr>]
   \<and> filter (\<lambda>u. address (wallet u) = ''B'')
     (snd (pollChunk (Returns [None, Some \<lparr>lamports = 4\<rparr>])
        [\<lparr>address = ''A'', name = ''a'', emoji = ''''\<rparr>, \<lparr>address = ''B'', name = ''b'', emoji = ''''\<rparr>]
        \<lparr>balanceCache = [''A'' \<mapsto> 5], dynamicInterval = 1000\<rparr>))
     = [\<lparr>wallet = \<lparr>address = ''B'', name = ''b'', emoji = ''''\<rparr>, cur = 4, diffSol = 4 / 10 ^ 9\<rparr>]
   \<and> initBatch (Returns [None, Some \<lparr>lamports = 4\<rparr>])
        [\<lparr>address = ''A'', name = ''a'', emoji = ''''\<rparr>, \<lparr>address = ''B'', name = ''b'', emoji = ''''\<rparr>]
        Map.empty ''A'' = Some 0"
proof -
  let ?infos = "[None, Some \<lparr>lamports = 4\<rparr>]"
  let ?chunk = "[\<lparr>address = ''A'', name = ''a'', emoji = ''''\<rparr>, \<lparr>address = ''B'', name = ''b'', emoji = ''''\<rparr>]"
  let ?st = "\<lparr>balanceCache = [''A'' \<mapsto> (5::int)], dynamicInterval = 1000\<rparr>"
  have len: "length ?infos = length ?chunk" and dist: "distinct (map address ?chunk)"
    and i0: "(0::nat) < length ?chunk" and i1: "(1::nat) < length ?chunk"
    by simp_all
  from missing_account_is_zero[OF len dist i0, of Map.empty ?st]
    missing_account_is_zero[OF len dist i1, of Map.empty ?st]
  show ?thesis by (simp add: cachedBalance_def lamportsToSol_def)
qed

section \<open>Properties of the dispatch\<close>

lemma chunkLoop_result:
  assumes "0 < sz"
  shows "\<exists>r. chunkLoop array sz i res = Some (res @ r) \<and> concat r = drop i array
            \<and> (\<forall>c \<in> set r. c \<noteq> [] \<and> length c \<le> sz)"
proof (induction "length array - i" arbitrary: i res rule: less_induct)
  case less
  show ?case
  proof (cases "i < length array")
    case False
    then show ?thesis by (subst chunkLoop.simps) simp
  next
    case True
    let ?c = "slice array i (i + sz)"
    have "length array - (i + sz) < length array - i" using True assms by arith
    from less[OF this, of "res @ [?c]"] obtain r where
      r: "chunkLoop array sz (i + sz) (res @ [?c]) = Some ((res @ [?c]) @ r)"
         "concat r = drop (i + sz) array" "\<forall>c \<in> set r. c \<noteq> [] \<and> length c \<le> sz"
      by blast
    have c: "?c = take sz (drop i array)" by (simp add: slice_def)
    have "chunkLoop array sz i res = Some (res @ (?c # r))"
      using True r(1) by (subst chunkLoop.simps) simp
    moreover have "concat (?c # r) = drop i array"
    proof -
      have "drop (i + sz) array = drop sz (drop i array)" by (simp add: add.commute)
      with r(2) have "concat (?c # r) = take sz (drop i array) @ drop sz (drop i array)"
        by (simp only: concat.simps c)
      then show ?thesis by (simp only: append_take_drop_id)
    qed
    moreover have "?c \<noteq> [] \<and> length ?c \<le> sz" using True assms by (simp add: c)
    ultimately show ?thesis using r(3) by (intro exI[of _ "?c # r"]) simp
  qed
qed

lemma chunkArray_result:
  assumes "0 < sz"
  shows "\<exists>r. chunkArray array sz = Some r \<and> concat r = array
            \<and> (\<forall>c \<in> set r. c \<noteq> [] \<and> length c \<le> sz)"
  using chunkLoop_result[OF assms, of array 0 "[]"] by (simp add: chunkArray_def)

text \<open>
  While a batch is being dispatched, the tasks not yet started and the tasks in flight
  together are at most as many as the permit count, and so are the batches still
  pending.
\<close>

lemma dispatchReach_bounded:
  assumes "dispatchReach updates s"
  shows "length (toStart s) + length (inFlight s) \<le> MAX_CONCURRENT_TASKS
         \<and> (\<forall>b \<in> set (pending s). length b \<le> MAX_CONCURRENT_TASKS)"
  using assms
proof (induction rule: dispatchReach.induct)
  case (init updates updateBatches)
  have "0 < MAX_CONCURRENT_TASKS" by (simp add: MAX_CONCURRENT_TASKS_def)
  from chunkArray_result[OF this, of updates] init show ?case by auto
next
  case (step updates s s')
  from step.hyps(2) step.IH show ?case
  proof (cases rule: dispatchStep.cases)
    case (nextBatch batch rest)
    with step.IH show ?thesis by simp
  next
    case (start t ts)
    with step.IH show ?thesis by simp
  next
    case (settle t)
    have "length (remove1 t (inFlight s)) \<le> length (inFlight s)"
      by (simp add: length_remove1)
    with settle step.IH show ?thesis by simp
  qed
qed

text \<open>
  Claim C9. However many updates a batch of accounts produces, they are split, in order
  and without loss, into non-empty batches of at most \<open>MAX_CONCURRENT_TASKS = 5\<close> tasks;
  in every state the dispatch can reach, at most 5 tasks are in flight; and the dispatch
  moves on to a new batch only from a state in which no task is in flight.
\<close>

theorem in_flight_bounded:
  "MAX_CONCURRENT_TASKS = 5
   \<and> (\<exists>updateBatches. chunkArray updates MAX_CONCURRENT_TASKS = Some updateBatches
         \<and> concat updateBatches = updates
         \<and> (\<forall>b \<in> set updateBatches. b \<noteq> [] \<and> length b \<le> MAX_CONCURRENT_TASKS))
   \<and> (\<forall>s. dispatchReach updates s \<longrightarrow> length (inFlight s) \<le> MAX_CONCURRENT_TASKS)
   \<and> (\<forall>s s'. dispatchReach updates s \<and> dispatchStep s s' \<and> pending s' \<noteq> pending s
         \<longrightarrow> inFlight s = [] \<and> toStart s = [])"
proof -
  have pos: "0 < MAX_CONCURRENT_TASKS" by (simp add: MAX_CONCURRENT_TASKS_def)
  have "inFlight s = [] \<and> toStart s = []" if "dispatchStep s s'" "pending s' \<noteq> pending s"
    for s s' :: "'a Dispatch"
    using that by (cases rule: dispatchStep.cases) auto
  moreover have "length (inFlight s) \<le> MAX_CONCURRENT_TASKS" if "dispatchReach updates s" for s
    using dispatchReach_bounded[OF that] by simp
  ultimately show ?thesis
    using chunkArray_result[OF pos, of updates] by (auto simp: MAX_CONCURRENT_TASKS_def)
qed

theorem in_flight_bounded_witness:
  "chunkArray [1, 2, 3, 4, 5, 6, 7 :: nat] MAX_CONCURRENT_TASKS = Some [[1, 2, 3, 4, 5], [6, 7]]
   \<and> dispatchReach [1, 2, 3, 4, 5, 6, 7 :: nat] \<lparr>pending = [[6, 7]], toStart = [3, 4, 5], inFlight = [1, 2]\<rparr>
   \<and> length (inFlight \<lparr>pending = [[6, 7]], toStart = [3, 4, 5], inFlight = [1, 2 :: nat]\<rparr>) \<le> MAX_CONCURRENT_TASKS"
proof -
  let ?us = "[1, 2, 3, 4, 5, 6, 7 :: nat]"
  have c: "chunkArray ?us MAX_CONCURRENT_TASKS = Some [[1, 2, 3, 4, 5], [6, 7]]"
    by (simp add: chunkArray_def MAX_CONCURRENT_TASKS_def chunkLoop.simps slice_def)
  have r0: "dispatchReach ?us \<lparr>pending = [[1, 2, 3, 4, 5], [6, 7]], toStart = [], inFlight = []\<rparr>"
    by (rule dispatchReach.init[OF c])
  have r1: "dispatchReach ?us \<lparr>pending = [[6, 7]], toStart = [1, 2, 3, 4, 5], inFlight = []\<rparr>"
    by (rule dispatchReach.step[OF r0]) (rule dispatchStep.nextBatch; simp)
  have r2: "dispatchReach ?us \<lparr>pending = [[6, 7]], toStart = [2, 3, 4, 5], inFlight = [1]\<rparr>"
    using dispatchReach.step[OF r1 dispatchStep.start[of _ 1 "[2, 3, 4, 5]"]] by simp
  have r3: "dispatchReach ?us \<lparr>pending = [[6, 7]], toStart = [3, 4, 5], inFlight = [1, 2]\<rparr>"
    using dispatchReach.step[OF r2 dispatchStep.start[of _ 2 "[3, 4, 5]"]] by simp
  from in_flight_bounded[of ?us] r3 c show ?thesis by blast
qed

section \<open>Properties of the signature resolution retrier\<close>

text \<open>The sleep that follows an attempt which did not leave the loop, by its reply.\<close>

lemma attemptStep_continue:
  assumes "attemptStep reply s = (False, s')"
  shows "attempts s' = Suc (attempts s)"
    and "delays s' = delays s @ [case reply of Throws m \<Rightarrow> if is429 m then 1200 else 200 | Returns sigs \<Rightarrow> 200]"
  using assms
  by (auto simp: attemptStep_def split: rpc.splits list.splits if_splits)

lemma attemptStep_break:
  assumes "attemptStep reply s = (True, s')"
  shows "attempts s' = attempts s" and "delays s' = delays s"
  using assms
  by (auto simp: attemptStep_def split: rpc.splits list.splits if_splits)

lemma retryLoop_invariant:
  assumes "length (delays s) = attempts s" and "attempts s \<le> MAX_ATTEMPTS"
    and "\<forall>k < attempts s. delays s ! k =
           (case replies k of Throws m \<Rightarrow> if is429 m then 1200 else 200 | Returns sigs \<Rightarrow> 200)"
  shows "length (delays (retryLoop replies s)) = attempts (retryLoop replies s)
       \<and> attempts (retryLoop replies s) \<le> MAX_ATTEMPTS
       \<and> (\<forall>k < attempts (retryLoop replies s). delays (retryLoop replies s) ! k =
           (case replies k of Throws m \<Rightarrow> if is429 m then 1200 else 200 | Returns sigs \<Rightarrow> 200))"
  using assms
proof (induction replies s rule: retryLoop.induct)
  case (1 replies s)
  show ?case
  proof (cases "attempts s < MAX_ATTEMPTS")
    case False
    with "1.prems" show ?thesis by (subst (1 2 3 4 5) retryLoop.simps) simp
  next
    case True
    obtain b s' where st: "attemptStep (replies (attempts s)) s = (b, s')"
      by (cases "attemptStep (replies (attempts s)) s")
    show ?thesis
    proof (cases b)
      case True
      with st attemptStep_break[of "replies (attempts s)" s s'] "1.prems" \<open>attempts s < MAX_ATTEMPTS\<close>
      have "retryLoop replies s = s'" "attempts s' = attempts s" "delays s' = delays s"
        by (simp_all add: retryLoop.simps[of replies s])
      with "1.prems" show ?thesis by simp
    next
      case False
      with st have st': "attemptStep (replies (attempts s)) s = (False, s')" by simp
      note c = attemptStep_continue[OF st']
      have eq: "retryLoop replies s = retryLoop replies s'"
        using st' \<open>attempts s < MAX_ATTEMPTS\<close> by (simp add: retryLoop.simps[of replies s])
      have p1: "length (delays s') = attempts s'" using c "1.prems"(1) by simp
      have p2: "attempts s' \<le> MAX_ATTEMPTS" using c \<open>attempts s < MAX_ATTEMPTS\<close> by simp
      have p3: "\<forall>k < attempts s'. delays s' ! k =
           (case replies k of Throws m \<Rightarrow> if is429 m then 1200 else 200 | Returns sigs \<Rightarrow> 200)"
        using c "1.prems"(1,3) by (auto simp: nth_append less_Suc_eq)
      show ?thesis
        unfolding eq
        by (rule "1.IH"[OF \<open>attempts s < MAX_ATTEMPTS\<close> st'[symmetric] refl p1 p2 p3])
    qed
  qed
qed

text \<open>
  Claim C3, as the retry loop has it. An attempt that throws with a message including
  \<open>429\<close> is followed by a sleep of 1200 ms, any other attempt that does not end the loop
  by one of 200 ms. Every attempt that does not end the loop uses up one of the
  \<open>MAX_ATTEMPTS = 15\<close> attempts, whatever its reason: a rate-limit signal, any other
  throw, zero signatures, or a newest signature marked as failed. The loop ends with at
  most 15 attempts counted, one recorded sleep per counted attempt, and the \<open>k\<close>-th
  sleep is the one that belongs to the \<open>k\<close>-th reply.
\<close>

theorem retry_budget_shared:
  "MAX_ATTEMPTS = 15
   \<and> attemptStep (Throws m) s
       = (False, s\<lparr>attempts := attempts s + 1,
                    delays := delays s @ [if is429 m then 1200 else 200]\<rparr>)
   \<and> attemptStep (Returns sigs) s
       = (if sigs \<noteq> [] \<and> \<not> sig_err (hd sigs) then (True, s\<lparr>signatures := sigs\<rparr>)
          else (False, s\<lparr>signatures := sigs, attempts := attempts s + 1,
                         delays := delays s @ [200]\<rparr>))
   \<and> attempts (retryLoop replies \<lparr>signatures = [], attempts = 0, delays = []\<rparr>) \<le> MAX_ATTEMPTS
   \<and> length (delays (retryLoop replies \<lparr>signatures = [], attempts = 0, delays = []\<rparr>))
       = attempts (retryLoop replies \<lparr>signatures = [], attempts = 0, delays = []\<rparr>)
   \<and> (\<forall>k < attempts (retryLoop replies \<lparr>signatures = [], attempts = 0, delays = []\<rparr>).
         delays (retryLoop replies \<lparr>signatures = [], attempts = 0, delays = []\<rparr>) ! k
         = (case replies k of Throws m \<Rightarrow> if is429 m then 1200 else 200 | Returns sigs \<Rightarrow> 200))"
proof -
  have "attemptStep (Throws m) s
       = (False, s\<lparr>attempts := attempts s + 1,
                    delays := delays s @ [if is429 m then 1200 else 200]\<rparr>)"
    by (simp add: attemptStep_def)
  moreover have "attemptStep (Returns sigs) s
       = (if sigs \<noteq> [] \<and> \<not> sig_err (hd sigs) then (True, s\<lparr>signatures := sigs\<rparr>)
          else (False, s\<lparr>signatures := sigs, attempts := attempts s + 1,
                         delays := delays s @ [200]\<rparr>))"
    by (cases sigs) (simp_all add: attemptStep_def)
  moreover note retryLoop_invariant[of "\<lparr>signatures = [], attempts = 0, delays = []\<rparr>" replies]
  ultimately show ?thesis by (simp add: MAX_ATTEMPTS_def)
qed

theorem retry_budget_shared_witness:
  "attempts (retryLoop (\<lambda>k. Throws (Some ''429 Too Many Requests''))
      \<lparr>signatures = [], attempts = 0, delays = []\<rparr>) = 15
   \<and> delays (retryLoop (\<lambda>k. Throws (Some ''429 Too Many Requests''))
      \<lparr>signatures = [], attempts = 0, delays = []\<rparr>) ! 3 = 1200"
proof -
  let ?r = "\<lambda>k::nat. (Throws (Some ''429 Too Many Requests'') :: SignatureInfo list rpc)"
  have a: "attempts (retryLoop ?r \<lparr>signatures = [], attempts = 0, delays = []\<rparr>) = 15"
    by (simp add: retryLoop.simps attemptStep_def MAX_ATTEMPTS_def)
  have "is429 (Some ''429 Too Many Requests'')"
    by (simp add: str_includes_def sublist_code)
  with retry_budget_shared[of "Some ''x''" "\<lparr>signatures = [], attempts = 0, delays = []\<rparr>" "[]" ?r] a
  show ?thesis by simp
qed

text \<open>
  The claim as stated fails: one rate-limited attempt, from the initial state, is
  counted against the budget; and fifteen rate-limited attempts in a row use the budget
  up, so that no signature is resolved.
\<close>

theorem rate_limit_consumes_attempt_counterexample:
  "is429 (Some ''429 Too Many Requests'')
   \<and> attempts (snd (attemptStep (Throws (Some ''429 Too Many Requests''))
        \<lparr>signatures = [], attempts = 0, delays = []\<rparr>)) = 1
   \<and> attempts (retryLoop (\<lambda>k. Throws (Some ''429 Too Many Requests''))
        \<lparr>signatures = [], attempts = 0, delays = []\<rparr>) = MAX_ATTEMPTS
   \<and> resolveSignature (\<lambda>k. Throws (Some ''429 Too Many Requests'')) = None"
  by (simp add: str_includes_def sublist_code attemptStep_def retryLoop.simps MAX_ATTEMPTS_def
      resolveSignature_def)


section \<open>Properties of the binary64 rounding\<close>






























section \<open>Properties of the transaction classifier\<close>

































section \<open>Properties of the token metadata resolver\<close>

lemma found_parseJupiter:
  "found (parseJupiter tok jupRes v) \<longleftrightarrow>
     found v \<or> (\<exists>res jupData d info ei. jupRes = Fulfilled res \<and> ok res \<and> body res = Some jupData
                   \<and> jup_data jupData = Some d \<and> d tok = Some info \<and> info_extraInfo info = Some ei)"
  by (auto simp: parseJupiter_def Let_def split: settled.splits option.splits)

lemma found_parseDex:
  "found (parseDex dexRes v) \<longleftrightarrow>
     found v \<or> (\<exists>res dexData pairs. dexRes = Fulfilled res \<and> ok res \<and> body res = Some dexData
                   \<and> dex_pairs dexData = Some pairs \<and> pairs \<noteq> [] \<and> \<not> sortThrows pairs)"
  by (auto simp: parseDex_def Let_def split: settled.splits option.splits)

lemma fetchToken_miss:
  assumes "cacheHit cache now tok = None"
  shows "fetchTokenMarketData cache now tok jupRes dexRes now' =
     (let v = parseDex dexRes (parseJupiter tok jupRes initialVars);
          result = \<lparr>symbol = symbol v, tokenName = tokenName v, priceUsd = priceUsd v,
                     fdv = fdv v, liquidity = liquidity v\<rparr>
      in if found v then (Some result, cache(tok \<mapsto> (result, now')), 2) else (None, cache, 2))"
  using assms by (simp add: fetchTokenMarketData_def Let_def)

lemma found_iff_sources:
  assumes "cacheHit cache now tok = None"
  shows "fst (fetchTokenMarketData cache now tok jupRes dexRes now') \<noteq> None \<longleftrightarrow>
       (\<exists>res jupData d info ei. jupRes = Fulfilled res \<and> ok res \<and> body res = Some jupData
           \<and> jup_data jupData = Some d \<and> d tok = Some info \<and> info_extraInfo info = Some ei)
     \<or> (\<exists>res dexData pairs. dexRes = Fulfilled res \<and> ok res \<and> body res = Some dexData
           \<and> dex_pairs dexData = Some pairs \<and> pairs \<noteq> [] \<and> \<not> sortThrows pairs)"
proof -
  have "fst (fetchTokenMarketData cache now tok jupRes dexRes now') \<noteq> None
      \<longleftrightarrow> found (parseDex dexRes (parseJupiter tok jupRes initialVars))"
    by (simp add: fetchToken_miss[OF assms] Let_def)
  then show ?thesis
    by (simp add: found_parseDex found_parseJupiter initialVars_def)
qed

text \<open>
  Claim C5, as the resolver has it. Take a lookup that the cache does not serve and a
  secondary response that is not a list of two or more pairs one of which lacks a
  liquidity. The result is found if and only if the primary source answered ok with an
  entry for the token that carries \<open>extraInfo\<close> (the block the symbol is read from), or
  the secondary source answered ok with at least one pair; in every other case the
  caller receives not-found. In particular, with a secondary source that failed, a
  primary entry that supplies a price and no \<open>extraInfo\<close> gives not-found, and a primary
  entry whose \<open>extraInfo\<close> supplies no symbol and that has no price gives a found result,
  which carries the placeholders.
\<close>

theorem found_iff_extra_info_or_pairs:
  assumes "cacheHit cache now tok = None"
    and "\<forall>res dexData pairs. dexRes = Fulfilled res \<and> body res = Some dexData
            \<and> dex_pairs dexData = Some pairs \<longrightarrow> \<not> sortThrows pairs"
  shows "(fst (fetchTokenMarketData cache now tok jupRes dexRes now') \<noteq> None \<longleftrightarrow>
           (\<exists>res jupData d info ei. jupRes = Fulfilled res \<and> ok res \<and> body res = Some jupData
               \<and> jup_data jupData = Some d \<and> d tok = Some info \<and> info_extraInfo info = Some ei)
         \<or> (\<exists>res dexData pairs. dexRes = Fulfilled res \<and> ok res \<and> body res = Some dexData
               \<and> dex_pairs dexData = Some pairs \<and> pairs \<noteq> []))
       \<and> (\<forall>res jupData d price. dexRes = Rejected \<and> jupRes = Fulfilled res \<and> ok res
              \<and> body res = Some jupData \<and> jup_data jupData = Some d
              \<and> d tok = Some (JupInfo (Some price) None)
            \<longrightarrow> fst (fetchTokenMarketData cache now tok jupRes dexRes now') = None)
       \<and> (\<forall>res jupData d. dexRes = Rejected \<and> jupRes = Fulfilled res \<and> ok res
              \<and> body res = Some jupData \<and> jup_data jupData = Some d
              \<and> d tok = Some (JupInfo None (Some (ExtraInfo None)))
            \<longrightarrow> fst (fetchTokenMarketData cache now tok jupRes dexRes now')
                  = Some \<lparr>symbol = ''UNKNOWN'', tokenName = ''UNKNOWN'', priceUsd = ''0'',
                          fdv = 0, liquidity = 0\<rparr>)"
proof -
  have 1: "fst (fetchTokenMarketData cache now tok jupRes dexRes now') \<noteq> None \<longleftrightarrow>
           (\<exists>res jupData d info ei. jupRes = Fulfilled res \<and> ok res \<and> body res = Some jupData
               \<and> jup_data jupData = Some d \<and> d tok = Some info \<and> info_extraInfo info = Some ei)
         \<or> (\<exists>res dexData pairs. dexRes = Fulfilled res \<and> ok res \<and> body res = Some dexData
               \<and> dex_pairs dexData = Some pairs \<and> pairs \<noteq> [])"
    unfolding found_iff_sources[OF assms(1)] using assms(2) by blast
  have 2: "fst (fetchTokenMarketData cache now tok jupRes dexRes now') = None"
    if "dexRes = Rejected" "jupRes = Fulfilled res" "ok res" "body res = Some jupData"
      "jup_data jupData = Some d" "d tok = Some (JupInfo (Some price) None)"
    for res jupData d price
    using that
    by (simp add: fetchToken_miss[OF assms(1)] Let_def parseDex_def parseJupiter_def initialVars_def)
  have 3: "fst (fetchTokenMarketData cache now tok jupRes dexRes now')
                  = Some \<lparr>symbol = ''UNKNOWN'', tokenName = ''UNKNOWN'', priceUsd = ''0'',
                          fdv = 0, liquidity = 0\<rparr>"
    if "dexRes = Rejected" "jupRes = Fulfilled res" "ok res" "body res = Some jupData"
      "jup_data jupData = Some d" "d tok = Some (JupInfo None (Some (ExtraInfo None)))"
    for res jupData d
    using that
    by (simp add: fetchToken_miss[OF assms(1)] Let_def parseDex_def parseJupiter_def initialVars_def
        orElse_def)
  show ?thesis
  proof (intro conjI allI impI)
    show "fst (fetchTokenMarketData cache now tok jupRes dexRes now') \<noteq> None \<longleftrightarrow>
           (\<exists>res jupData d info ei. jupRes = Fulfilled res \<and> ok res \<and> body res = Some jupData
               \<and> jup_data jupData = Some d \<and> d tok = Some info \<and> info_extraInfo info = Some ei)
         \<or> (\<exists>res dexData pairs. dexRes = Fulfilled res \<and> ok res \<and> body res = Some dexData
               \<and> dex_pairs dexData = Some pairs \<and> pairs \<noteq> [])"
      by (rule 1)
  next
    fix res jupData d price
    assume "dexRes = Rejected \<and> jupRes = Fulfilled res \<and> ok res
              \<and> body res = Some jupData \<and> jup_data jupData = Some d
              \<and> d tok = Some (JupInfo (Some price) None)"
    then show "fst (fetchTokenMarketData cache now tok jupRes dexRes now') = None"
      using 2[of res jupData d price] by simp
  next
    fix res jupData d
    assume "dexRes = Rejected \<and> jupRes = Fulfilled res \<and> ok res
              \<and> body res = Some jupData \<and> jup_data jupData = Some d
              \<and> d tok = Some (JupInfo None (Some (ExtraInfo None)))"
    then show "fst (fetchTokenMarketData cache now tok jupRes dexRes now')
                  = Some \<lparr>symbol = ''UNKNOWN'', tokenName = ''UNKNOWN'', priceUsd = ''0'',
                          fdv = 0, liquidity = 0\<rparr>"
      using 3[of res jupData d] by simp
  qed
qed

theorem found_iff_extra_info_or_pairs_witness:
  "fst (fetchTokenMarketData Map.empty 1000 ''M''
      (Fulfilled \<lparr>status = 200, ok = True,
         body = Some (JupData (Some [''M'' \<mapsto> JupInfo (Some ''1.5'') (Some (ExtraInfo (Some ''MEME'')))]))\<rparr>)
      Rejected 1200)
   = Some \<lparr>symbol = ''MEME'', tokenName = ''MEME'', priceUsd = ''1.5'', fdv = 0, liquidity = 0\<rparr>
 \<and> fst (fetchTokenMarketData Map.empty 1000 ''M''
      (Fulfilled \<lparr>status = 200, ok = True, body = Some (JupData (Some Map.empty))\<rparr>)
      (Fulfilled \<lparr>status = 200, ok = True,
         body = Some (DexData (Some [DexPair (BaseToken ''DOG'' ''Dog Coin'') ''0.25'' (Some 1000) (Some 500)]))\<rparr>)
      1200)
   = Some \<lparr>symbol = ''DOG'', tokenName = ''Dog Coin'', priceUsd = ''0.25'', fdv = 1000, liquidity = 500\<rparr>
 \<and> fst (fetchTokenMarketData Map.empty 1000 ''M''
      (Fulfilled \<lparr>status = 200, ok = True, body = Some (JupData (Some Map.empty))\<rparr>)
      (Fulfilled \<lparr>status = 200, ok = True, body = Some (DexData (Some []))\<rparr>)
      1200)
   = None"
proof -
  let ?jup = "Fulfilled \<lparr>status = 200, ok = True,
         body = Some (JupData (Some [''M'' \<mapsto> JupInfo (Some ''1.5'') (Some (ExtraInfo (Some ''MEME'')))]))\<rparr>"
  let ?jupE = "Fulfilled \<lparr>status = 200, ok = True, body = Some (JupData (Some Map.empty))\<rparr>"
  let ?dex = "Fulfilled \<lparr>status = 200, ok = True,
         body = Some (DexData (Some [DexPair (BaseToken ''DOG'' ''Dog Coin'') ''0.25'' (Some 1000) (Some 500)]))\<rparr>"
  let ?dexE = "Fulfilled \<lparr>status = 200, ok = True, body = Some (DexData (Some []))\<rparr>"
  have miss: "cacheHit (Map.empty :: tokenCache) 1000 ''M'' = None" by (simp add: cacheHit_def)
  have s1: "\<forall>res dexData pairs. (Rejected :: DexData Response settled) = Fulfilled res
      \<and> body res = Some dexData \<and> dex_pairs dexData = Some pairs \<longrightarrow> \<not> sortThrows pairs"
    by simp
  have s2: "\<forall>res dexData pairs. ?dex = Fulfilled res
      \<and> body res = Some dexData \<and> dex_pairs dexData = Some pairs \<longrightarrow> \<not> sortThrows pairs"
    by (auto simp: sortThrows_def)
  have s3: "\<forall>res dexData pairs. ?dexE = Fulfilled res
      \<and> body res = Some dexData \<and> dex_pairs dexData = Some pairs \<longrightarrow> \<not> sortThrows pairs"
    by (auto simp: sortThrows_def)
  from found_iff_extra_info_or_pairs[OF miss s1, of ?jup 1200]
  have f1: "fst (fetchTokenMarketData Map.empty 1000 ''M'' ?jup Rejected 1200) \<noteq> None" by simp
  from found_iff_extra_info_or_pairs[OF miss s2, of ?jupE 1200]
  have f2: "fst (fetchTokenMarketData Map.empty 1000 ''M'' ?jupE ?dex 1200) \<noteq> None" by simp
  from found_iff_extra_info_or_pairs[OF miss s3, of ?jupE 1200]
  have f3: "fst (fetchTokenMarketData Map.empty 1000 ''M'' ?jupE ?dexE 1200) = None" by simp
  have e1: "fst (fetchTokenMarketData Map.empty 1000 ''M'' ?jup Rejected 1200)
      = Some \<lparr>symbol = ''MEME'', tokenName = ''MEME'', priceUsd = ''1.5'', fdv = 0, liquidity = 0\<rparr>"
    by (simp add: fetchTokenMarketData_def cacheHit_def parseJupiter_def parseDex_def
        initialVars_def orElse_def Let_def)
  have e2: "fst (fetchTokenMarketData Map.empty 1000 ''M'' ?jupE ?dex 1200)
      = Some \<lparr>symbol = ''DOG'', tokenName = ''Dog Coin'', priceUsd = ''0.25'', fdv = 1000, liquidity = 500\<rparr>"
    by (simp add: fetchTokenMarketData_def cacheHit_def parseJupiter_def parseDex_def
        initialVars_def orElse_def orZero_def sortThrows_def bestPairOf_def Let_def)
  from f1 f2 f3 e1 e2 show ?thesis by simp
qed

text \<open>
  The claim as stated fails in both directions. The primary source supplies a price for
  the token and nothing else, the secondary source is unreachable, and the caller
  receives not-found. The primary source supplies an \<open>extraInfo\<close> block with no symbol
  and no price, the secondary source is unreachable, and the caller receives a found
  result made of the placeholders. The secondary source supplies two pairs with symbol
  and price, one of them without a liquidity, the primary source has no entry, and the
  caller receives not-found.
\<close>

theorem price_alone_not_found_counterexample:
  "priceUsd (parseJupiter ''M''
      (Fulfilled \<lparr>status = 200, ok = True,
         body = Some (JupData (Some [''M'' \<mapsto> JupInfo (Some ''1.5'') None]))\<rparr>) initialVars) = ''1.5''
   \<and> fetchTokenMarketData Map.empty 1000 ''M''
      (Fulfilled \<lparr>status = 200, ok = True,
         body = Some (JupData (Some [''M'' \<mapsto> JupInfo (Some ''1.5'') None]))\<rparr>)
      Rejected 1200
     = (None, Map.empty, 2)
   \<and> fst (fetchTokenMarketData Map.empty 1000 ''M''
      (Fulfilled \<lparr>status = 200, ok = True,
         body = Some (JupData (Some [''M'' \<mapsto> JupInfo None (Some (ExtraInfo None))]))\<rparr>)
      Rejected 1200)
     = Some \<lparr>symbol = ''UNKNOWN'', tokenName = ''UNKNOWN'', priceUsd = ''0'', fdv = 0, liquidity = 0\<rparr>
   \<and> fetchTokenMarketData Map.empty 1000 ''M''
      (Fulfilled \<lparr>status = 200, ok = True, body = Some (JupData (Some Map.empty))\<rparr>)
      (Fulfilled \<lparr>status = 200, ok = True,
         body = Some (DexData (Some [DexPair (BaseToken ''DOG'' ''Dog Coin'') ''0.25'' (Some 1000) (Some 500),
                                     DexPair (BaseToken ''DOG'' ''Dog Coin'') ''0.26'' (Some 1000) None]))\<rparr>)
      1200
     = (None, Map.empty, 2)"
  by (simp add: fetchTokenMarketData_def cacheHit_def parseJupiter_def parseDex_def
      initialVars_def orElse_def sortThrows_def Let_def)

lemma cacheHit_stale:
  "cache tok = Some (d, ts) \<Longrightarrow> now - ts \<ge> CACHE_TTL \<Longrightarrow> cacheHit cache now tok = None"
  by (simp add: cacheHit_def)

lemma cacheHit_fresh:
  "later - now' < CACHE_TTL \<Longrightarrow> cacheHit (cache(tok \<mapsto> (d, now'))) later tok = Some d"
  by (simp add: cacheHit_def)

lemma fetchRug_miss:
  assumes "cacheHit cache now tok = None"
  shows "fetchRugCheckData cache now tok reply now' =
     (case reply of
        Throws m \<Rightarrow> (rugError, cache, 1)
      | Returns res \<Rightarrow>
          if status res = 404
          then (\<lparr>score = 0, riskLevel = ''unknown'', isNew = True\<rparr>, cache, 1)
          else if \<not> ok res then (rugError, cache, 1)
          else (case body res of
                  None \<Rightarrow> (rugError, cache, 1)
                | Some data \<Rightarrow>
                    (let result = \<lparr>score = orZero (rug_score data),
                                     riskLevel = (if orZero (rug_score data) > 2000 then ''danger''
                                                  else if orZero (rug_score data) > 500 then ''warn''
                                                  else ''good''),
                                     isNew = False\<rparr>
                     in (result, cache(tok \<mapsto> (result, now')), 1))))"
  using assms by (auto simp: fetchRugCheckData_def Let_def split: rpc.splits option.splits)

text \<open>A resolution that goes to the network and is found stores what it returns.\<close>

lemma fetchToken_store:
  assumes "cacheHit tc now tok = None"
    and "(\<exists>res jupData d info ei. jupRes = Fulfilled res \<and> ok res \<and> body res = Some jupData
             \<and> jup_data jupData = Some d \<and> d tok = Some info \<and> info_extraInfo info = Some ei)
       \<or> (\<exists>res dexData pairs. dexRes = Fulfilled res \<and> ok res \<and> body res = Some dexData
             \<and> dex_pairs dexData = Some pairs \<and> pairs \<noteq> [] \<and> \<not> sortThrows pairs)"
  shows "\<exists>d. fetchTokenMarketData tc now tok jupRes dexRes now' = (Some d, tc(tok \<mapsto> (d, now')), 2)
           \<and> (\<forall>later jupRes2 dexRes2 later'. later - now' < CACHE_TTL \<longrightarrow>
                 fetchTokenMarketData (tc(tok \<mapsto> (d, now'))) later tok jupRes2 dexRes2 later'
                   = (Some d, tc(tok \<mapsto> (d, now')), 0))"
proof -
  let ?v = "parseDex dexRes (parseJupiter tok jupRes initialVars)"
  let ?d = "\<lparr>symbol = symbol ?v, tokenName = tokenName ?v, priceUsd = priceUsd ?v,
             fdv = fdv ?v, liquidity = liquidity ?v\<rparr>"
  from assms(2) have f: "found ?v"
    by (simp add: found_parseDex found_parseJupiter initialVars_def)
  then have 1: "fetchTokenMarketData tc now tok jupRes dexRes now' = (Some ?d, tc(tok \<mapsto> (?d, now')), 2)"
    by (simp add: fetchToken_miss[OF assms(1)] Let_def)
  have 2: "fetchTokenMarketData (tc(tok \<mapsto> (?d, now'))) later tok jupRes2 dexRes2 later'
             = (Some ?d, tc(tok \<mapsto> (?d, now')), 0)"
    if "later - now' < CACHE_TTL" for later jupRes2 dexRes2 later'
    unfolding fetchTokenMarketData_def cacheHit_fresh[OF that] by simp
  from 1 2 show ?thesis by blast
qed

lemma fetchToken_not_found:
  assumes "cacheHit tc now tok = None"
    and "\<not> ((\<exists>res jupData d info ei. jupRes = Fulfilled res \<and> ok res \<and> body res = Some jupData
             \<and> jup_data jupData = Some d \<and> d tok = Some info \<and> info_extraInfo info = Some ei)
       \<or> (\<exists>res dexData pairs. dexRes = Fulfilled res \<and> ok res \<and> body res = Some dexData
             \<and> dex_pairs dexData = Some pairs \<and> pairs \<noteq> [] \<and> \<not> sortThrows pairs))"
  shows "fetchTokenMarketData tc now tok jupRes dexRes now' = (None, tc, 2)"
proof -
  from assms(2) have "\<not> found (parseDex dexRes (parseJupiter tok jupRes initialVars))"
    by (simp add: found_parseDex found_parseJupiter initialVars_def)
  then show ?thesis by (simp add: fetchToken_miss[OF assms(1)] Let_def)
qed

lemma fetchRug_store:
  assumes "cacheHit rc now tok = None"
    and "reply = Returns res" "status res \<noteq> 404" "ok res" "body res = Some data"
  shows "\<exists>rd. fetchRugCheckData rc now tok reply now' = (rd, rc(tok \<mapsto> (rd, now')), 1)
           \<and> score rd = orZero (rug_score data) \<and> \<not> isNew rd
           \<and> (\<forall>later reply2 later'. later - now' < CACHE_TTL \<longrightarrow>
                 fetchRugCheckData (rc(tok \<mapsto> (rd, now'))) later tok reply2 later'
                   = (rd, rc(tok \<mapsto> (rd, now')), 0))"
proof -
  let ?rd = "\<lparr>score = orZero (rug_score data),
              riskLevel = (if orZero (rug_score data) > 2000 then ''danger''
                           else if orZero (rug_score data) > 500 then ''warn'' else ''good''),
              isNew = False\<rparr>"
  have 1: "fetchRugCheckData rc now tok reply now' = (?rd, rc(tok \<mapsto> (?rd, now')), 1)"
    using assms(2-5) by (simp add: fetchRug_miss[OF assms(1)] Let_def)
  have 2: "fetchRugCheckData (rc(tok \<mapsto> (?rd, now'))) later tok reply2 later'
             = (?rd, rc(tok \<mapsto> (?rd, now')), 0)"
    if "later - now' < CACHE_TTL" for later reply2 later'
    unfolding fetchRugCheckData_def cacheHit_fresh[OF that] by simp
  have 3: "score ?rd = orZero (rug_score data) \<and> \<not> isNew ?rd" by simp
  from 1 2 3 show ?thesis by blast
qed

lemma fetchRug_no_store:
  assumes "cacheHit rc now tok = None"
    and "reply = Throws msg \<or> reply = Returns res \<and> (status res = 404 \<or> \<not> ok res \<or> body res = None)"
  shows "fetchRugCheckData rc now tok reply now'
           = (if reply = Returns res \<and> status res = 404
              then \<lparr>score = 0, riskLevel = ''unknown'', isNew = True\<rparr> else rugError, rc, 1)"
  using assms(2) by (auto simp: fetchRug_miss[OF assms(1)])
text \<open>
  Claim C7, as the two caches have it. The time-to-live is 60 seconds. A metadata
  resolution that goes to the network and succeeds (the primary source answers ok with
  an entry carrying \<open>extraInfo\<close>, or the secondary source answers ok with a pair list
  that is sorted) returns a result, stores it under the token with the time of the
  write, and every lookup of the token made less than 60 seconds after that time returns
  the same result from the cache so written, without a request and without changing the
  cache; a resolution that does not succeed returns not-found and stores nothing. A
  lookup made less than 60 seconds after the time of an entry returns that entry with no
  request. A lookup made 60 seconds or more after the time of an entry issues the
  requests and returns what they yield, the same as if the cache were empty: the old
  entry is only ever checked at the read. The risk-score cache follows the same
  discipline for the results computed from an ok response with a body. The result given
  for a 404 response and the error fallback are returned after one request without
  being stored.
\<close>

theorem ttl_cache_discipline:
  "CACHE_TTL = 60 * 1000
   \<and> (cacheHit tc now tok = None
        \<and> ((\<exists>res jupData d info ei. jupRes = Fulfilled res \<and> ok res \<and> body res = Some jupData
               \<and> jup_data jupData = Some d \<and> d tok = Some info \<and> info_extraInfo info = Some ei)
           \<or> (\<exists>res dexData pairs. dexRes = Fulfilled res \<and> ok res \<and> body res = Some dexData
               \<and> dex_pairs dexData = Some pairs \<and> pairs \<noteq> [] \<and> \<not> sortThrows pairs))
        \<longrightarrow> (\<exists>d. fetchTokenMarketData tc now tok jupRes dexRes now'
                    = (Some d, tc(tok \<mapsto> (d, now')), 2)
                 \<and> (\<forall>later jupRes2 dexRes2 later'. later - now' < CACHE_TTL \<longrightarrow>
                       fetchTokenMarketData (tc(tok \<mapsto> (d, now'))) later tok jupRes2 dexRes2 later'
                         = (Some d, tc(tok \<mapsto> (d, now')), 0))))
   \<and> (cacheHit tc now tok = None
        \<and> \<not> ((\<exists>res jupData d info ei. jupRes = Fulfilled res \<and> ok res \<and> body res = Some jupData
               \<and> jup_data jupData = Some d \<and> d tok = Some info \<and> info_extraInfo info = Some ei)
           \<or> (\<exists>res dexData pairs. dexRes = Fulfilled res \<and> ok res \<and> body res = Some dexData
               \<and> dex_pairs dexData = Some pairs \<and> pairs \<noteq> [] \<and> \<not> sortThrows pairs))
        \<longrightarrow> fetchTokenMarketData tc now tok jupRes dexRes now' = (None, tc, 2))
   \<and> (tc tok = Some (cd, ts) \<and> now - ts < CACHE_TTL
        \<longrightarrow> fetchTokenMarketData tc now tok jupRes dexRes now' = (Some cd, tc, 0))
   \<and> (tc tok = Some (cd, ts) \<and> now - ts \<ge> CACHE_TTL
        \<longrightarrow> fst (fetchTokenMarketData tc now tok jupRes dexRes now')
              = fst (fetchTokenMarketData Map.empty now tok jupRes dexRes now')
            \<and> snd (snd (fetchTokenMarketData tc now tok jupRes dexRes now')) = 2)
   \<and> (cacheHit rc now tok = None
        \<and> reply = Returns rres \<and> status rres \<noteq> 404 \<and> ok rres \<and> body rres = Some data
        \<longrightarrow> (\<exists>rd. fetchRugCheckData rc now tok reply now' = (rd, rc(tok \<mapsto> (rd, now')), 1)
                 \<and> score rd = orZero (rug_score data) \<and> \<not> isNew rd
                 \<and> (\<forall>later reply2 later'. later - now' < CACHE_TTL \<longrightarrow>
                       fetchRugCheckData (rc(tok \<mapsto> (rd, now'))) later tok reply2 later'
                         = (rd, rc(tok \<mapsto> (rd, now')), 0))))
   \<and> (cacheHit rc now tok = None
        \<and> (reply = Throws msg
            \<or> reply = Returns rres \<and> (status rres = 404 \<or> \<not> ok rres \<or> body rres = None))
        \<longrightarrow> fetchRugCheckData rc now tok reply now'
              = (if reply = Returns rres \<and> status rres = 404
                 then \<lparr>score = 0, riskLevel = ''unknown'', isNew = True\<rparr> else rugError, rc, 1))
   \<and> (rc tok = Some (crd, ts) \<and> now - ts < CACHE_TTL
        \<longrightarrow> fetchRugCheckData rc now tok reply now' = (crd, rc, 0))
   \<and> (rc tok = Some (crd, ts) \<and> now - ts \<ge> CACHE_TTL
        \<longrightarrow> fst (fetchRugCheckData rc now tok reply now')
              = fst (fetchRugCheckData Map.empty now tok reply now')
            \<and> snd (snd (fetchRugCheckData rc now tok reply now')) = 1)"
proof -
  have t2: "fetchTokenMarketData tc now tok jupRes dexRes now' = (Some cd, tc, 0)"
    if "tc tok = Some (cd, ts)" "now - ts < CACHE_TTL"
    using that by (simp add: fetchTokenMarketData_def cacheHit_def)
  have empty_t: "cacheHit (Map.empty :: tokenCache) now tok = None" by (simp add: cacheHit_def)
  have t3: "fst (fetchTokenMarketData tc now tok jupRes dexRes now')
              = fst (fetchTokenMarketData Map.empty now tok jupRes dexRes now')
            \<and> snd (snd (fetchTokenMarketData tc now tok jupRes dexRes now')) = 2"
    if "tc tok = Some (cd, ts)" "now - ts \<ge> CACHE_TTL"
    using cacheHit_stale[of tc tok cd ts now, OF that]
    by (simp add: fetchToken_miss empty_t Let_def)
  have r2: "fetchRugCheckData rc now tok reply now' = (crd, rc, 0)"
    if "rc tok = Some (crd, ts)" "now - ts < CACHE_TTL"
    using that by (simp add: fetchRugCheckData_def cacheHit_def)
  have empty_r: "cacheHit (Map.empty :: rugCache) now tok = None" by (simp add: cacheHit_def)
  have r3: "fst (fetchRugCheckData rc now tok reply now')
              = fst (fetchRugCheckData Map.empty now tok reply now')
            \<and> snd (snd (fetchRugCheckData rc now tok reply now')) = 1"
    if "rc tok = Some (crd, ts)" "now - ts \<ge> CACHE_TTL"
    using cacheHit_stale[of rc tok crd ts now, OF that]
    by (simp add: fetchRug_miss empty_r Let_def split: rpc.splits option.splits)
  show ?thesis
  proof (intro conjI impI)
    show "CACHE_TTL = 60 * 1000" by (simp add: CACHE_TTL_def)
  next
    assume "cacheHit tc now tok = None
        \<and> ((\<exists>res jupData d info ei. jupRes = Fulfilled res \<and> ok res \<and> body res = Some jupData
               \<and> jup_data jupData = Some d \<and> d tok = Some info \<and> info_extraInfo info = Some ei)
           \<or> (\<exists>res dexData pairs. dexRes = Fulfilled res \<and> ok res \<and> body res = Some dexData
               \<and> dex_pairs dexData = Some pairs \<and> pairs \<noteq> [] \<and> \<not> sortThrows pairs))"
    then show "\<exists>d. fetchTokenMarketData tc now tok jupRes dexRes now'
                    = (Some d, tc(tok \<mapsto> (d, now')), 2)
                 \<and> (\<forall>later jupRes2 dexRes2 later'. later - now' < CACHE_TTL \<longrightarrow>
                       fetchTokenMarketData (tc(tok \<mapsto> (d, now'))) later tok jupRes2 dexRes2 later'
                         = (Some d, tc(tok \<mapsto> (d, now')), 0))"
      using fetchToken_store[of tc now tok jupRes dexRes now'] by blast
  next
    assume "cacheHit tc now tok = None
        \<and> \<not> ((\<exists>res jupData d info ei. jupRes = Fulfilled res \<and> ok res \<and> body res = Some jupData
               \<and> jup_data jupData = Some d \<and> d tok = Some info \<and> info_extraInfo info = Some ei)
           \<or> (\<exists>res dexData pairs. dexRes = Fulfilled res \<and> ok res \<and> body res = Some dexData
               \<and> dex_pairs dexData = Some pairs \<and> pairs \<noteq> [] \<and> \<not> sortThrows pairs))"
    then show "fetchTokenMarketData tc now tok jupRes dexRes now' = (None, tc, 2)"
      using fetchToken_not_found[of tc now tok jupRes dexRes now'] by blast
  next
    assume "tc tok = Some (cd, ts) \<and> now - ts < CACHE_TTL"
    then show "fetchTokenMarketData tc now tok jupRes dexRes now' = (Some cd, tc, 0)"
      using t2 by blast
  next
    assume "tc tok = Some (cd, ts) \<and> CACHE_TTL \<le> now - ts"
    then show "fst (fetchTokenMarketData tc now tok jupRes dexRes now')
              = fst (fetchTokenMarketData Map.empty now tok jupRes dexRes now')"
      using t3 by blast
  next
    assume "tc tok = Some (cd, ts) \<and> CACHE_TTL \<le> now - ts"
    then show "snd (snd (fetchTokenMarketData tc now tok jupRes dexRes now')) = 2"
      using t3 by blast
  next
    assume "cacheHit rc now tok = None
        \<and> reply = Returns rres \<and> status rres \<noteq> 404 \<and> ok rres \<and> body rres = Some data"
    then show "\<exists>rd. fetchRugCheckData rc now tok reply now' = (rd, rc(tok \<mapsto> (rd, now')), 1)
                 \<and> score rd = orZero (rug_score data) \<and> \<not> isNew rd
                 \<and> (\<forall>later reply2 later'. later - now' < CACHE_TTL \<longrightarrow>
                       fetchRugCheckData (rc(tok \<mapsto> (rd, now'))) later tok reply2 later'
                         = (rd, rc(tok \<mapsto> (rd, now')), 0))"
      using fetchRug_store[of rc now tok reply rres data now'] by blast
  next
    assume "cacheHit rc now tok = None
        \<and> (reply = Throws msg
            \<or> reply = Returns rres \<and> (status rres = 404 \<or> \<not> ok rres \<or> body rres = None))"
    then show "fetchRugCheckData rc now tok reply now'
              = (if reply = Returns rres \<and> status rres = 404
                 then \<lparr>score = 0, riskLevel = ''unknown'', isNew = True\<rparr> else rugError, rc, 1)"
      using fetchRug_no_store[of rc now tok reply msg rres now'] by blast
  next
    assume "rc tok = Some (crd, ts) \<and> now - ts < CACHE_TTL"
    then show "fetchRugCheckData rc now tok reply now' = (crd, rc, 0)"
      using r2 by blast
  next
    assume "rc tok = Some (crd, ts) \<and> CACHE_TTL \<le> now - ts"
    then show "fst (fetchRugCheckData rc now tok reply now')
              = fst (fetchRugCheckData Map.empty now tok reply now')"
      using r3 by blast
  next
    assume "rc tok = Some (crd, ts) \<and> CACHE_TTL \<le> now - ts"
    then show "snd (snd (fetchRugCheckData rc now tok reply now')) = 1"
      using r3 by blast
  qed
qed
theorem ttl_cache_discipline_witness:
  "fetchTokenMarketData Map.empty 1000 ''M''
      (Fulfilled \<lparr>status = 200, ok = True,
         body = Some (JupData (Some [''M'' \<mapsto> JupInfo (Some ''1.5'') (Some (ExtraInfo (Some ''MEME'')))]))\<rparr>)
      Rejected 1200
    = (Some \<lparr>symbol = ''MEME'', tokenName = ''MEME'', priceUsd = ''1.5'', fdv = 0, liquidity = 0\<rparr>,
       [''M'' \<mapsto> (\<lparr>symbol = ''MEME'', tokenName = ''MEME'', priceUsd = ''1.5'', fdv = 0, liquidity = 0\<rparr>, 1200)],
       2)
   \<and> fetchTokenMarketData
      [''M'' \<mapsto> (\<lparr>symbol = ''MEME'', tokenName = ''MEME'', priceUsd = ''1.5'', fdv = 0, liquidity = 0\<rparr>, 1200)]
      61199 ''M'' Rejected Rejected 61300
    = (Some \<lparr>symbol = ''MEME'', tokenName = ''MEME'', priceUsd = ''1.5'', fdv = 0, liquidity = 0\<rparr>,
       [''M'' \<mapsto> (\<lparr>symbol = ''MEME'', tokenName = ''MEME'', priceUsd = ''1.5'', fdv = 0, liquidity = 0\<rparr>, 1200)],
       0)
   \<and> fetchTokenMarketData
      [''M'' \<mapsto> (\<lparr>symbol = ''MEME'', tokenName = ''MEME'', priceUsd = ''1.5'', fdv = 0, liquidity = 0\<rparr>, 1200)]
      61200 ''M'' Rejected Rejected 61300
    = (None,
       [''M'' \<mapsto> (\<lparr>symbol = ''MEME'', tokenName = ''MEME'', priceUsd = ''1.5'', fdv = 0, liquidity = 0\<rparr>, 1200)],
       2)
   \<and> fetchRugCheckData Map.empty 1000 ''M''
        (Returns \<lparr>status = 200, ok = True, body = Some (RugJson (Some 700))\<rparr>) 1300
    = (\<lparr>score = 700, riskLevel = ''warn'', isNew = False\<rparr>,
       [''M'' \<mapsto> (\<lparr>score = 700, riskLevel = ''warn'', isNew = False\<rparr>, 1300)], 1)
   \<and> fetchRugCheckData [''M'' \<mapsto> (\<lparr>score = 700, riskLevel = ''warn'', isNew = False\<rparr>, 1300)]
        61299 ''M'' (Throws None) 61400
    = (\<lparr>score = 700, riskLevel = ''warn'', isNew = False\<rparr>,
       [''M'' \<mapsto> (\<lparr>score = 700, riskLevel = ''warn'', isNew = False\<rparr>, 1300)], 0)"
proof -
  let ?d = "\<lparr>symbol = ''MEME'', tokenName = ''MEME'', priceUsd = ''1.5'', fdv = 0, liquidity = 0\<rparr>"
  let ?rd = "\<lparr>score = 700, riskLevel = ''warn'', isNew = False\<rparr>"
  let ?jup = "Fulfilled \<lparr>status = 200, ok = True,
         body = Some (JupData (Some [''M'' \<mapsto> JupInfo (Some ''1.5'') (Some (ExtraInfo (Some ''MEME'')))]))\<rparr>"
  let ?res = "\<lparr>status = 200, ok = True, body = Some (RugJson (Some 700))\<rparr>"
  have miss_t: "cacheHit (Map.empty :: tokenCache) 1000 ''M'' = None"
    and miss_r: "cacheHit (Map.empty :: rugCache) 1000 ''M'' = None"
    by (simp_all add: cacheHit_def)
  have cond: "\<exists>res jupData d info ei. ?jup = Fulfilled res \<and> ok res \<and> body res = Some jupData
               \<and> jup_data jupData = Some d \<and> d ''M'' = Some info \<and> info_extraInfo info = Some ei"
    by simp
  note T = ttl_cache_discipline[where tc = Map.empty and now = 1000 and tok = "''M''"
      and jupRes = ?jup and dexRes = Rejected and now' = 1200]
  note R = ttl_cache_discipline[where rc = Map.empty and now = 1000 and tok = "''M''"
      and reply = "Returns ?res" and rres = ?res and data = "RugJson (Some 700)" and now' = 1300]
  have "\<exists>d. fetchTokenMarketData Map.empty 1000 ''M'' ?jup Rejected 1200
                       = (Some d, [''M'' \<mapsto> (d, 1200)], 2)
              \<and> (\<forall>later jupRes2 dexRes2 later'. later - 1200 < CACHE_TTL \<longrightarrow>
                  fetchTokenMarketData [''M'' \<mapsto> (d, 1200)] later ''M'' jupRes2 dexRes2 later'
                    = (Some d, [''M'' \<mapsto> (d, 1200)], 0))"
    by (rule T[THEN conjunct2, THEN conjunct1, THEN mp]) (intro conjI disjI1 miss_t cond)
  then obtain d where d: "fetchTokenMarketData Map.empty 1000 ''M'' ?jup Rejected 1200
                       = (Some d, [''M'' \<mapsto> (d, 1200)], 2)"
    and again: "\<forall>later jupRes2 dexRes2 later'. later - 1200 < CACHE_TTL \<longrightarrow>
                  fetchTokenMarketData [''M'' \<mapsto> (d, 1200)] later ''M'' jupRes2 dexRes2 later'
                    = (Some d, [''M'' \<mapsto> (d, 1200)], 0)"
    by (elim exE conjE)
  have "fst (fetchTokenMarketData Map.empty 1000 ''M'' ?jup Rejected 1200) = Some ?d"
    by (simp add: fetchTokenMarketData_def cacheHit_def parseJupiter_def parseDex_def
        initialVars_def orElse_def Let_def)
  with d have dv: "d = ?d" by simp
  have w1: "fetchTokenMarketData Map.empty 1000 ''M'' ?jup Rejected 1200
              = (Some ?d, [''M'' \<mapsto> (?d, 1200)], 2)"
    using d unfolding dv .
  have w2: "fetchTokenMarketData [''M'' \<mapsto> (?d, 1200)] 61199 ''M'' Rejected Rejected 61300
              = (Some ?d, [''M'' \<mapsto> (?d, 1200)], 0)"
    using again[rule_format, of 61199 Rejected Rejected 61300] unfolding dv
    by (simp add: CACHE_TTL_def)
  have w3: "fetchTokenMarketData [''M'' \<mapsto> (?d, 1200)] 61200 ''M'' Rejected Rejected 61300
              = (None, [''M'' \<mapsto> (?d, 1200)], 2)"
    by (simp add: fetchTokenMarketData_def cacheHit_def CACHE_TTL_def parseJupiter_def parseDex_def
        initialVars_def Let_def)
  have rcond: "cacheHit (Map.empty :: rugCache) 1000 ''M'' = None
        \<and> Returns ?res = Returns ?res \<and> status ?res \<noteq> 404 \<and> ok ?res
        \<and> body ?res = Some (RugJson (Some 700))"
    using miss_r by simp
  have "\<exists>rd. fetchRugCheckData Map.empty 1000 ''M'' (Returns ?res) 1300
                         = (rd, [''M'' \<mapsto> (rd, 1300)], 1)
              \<and> score rd = orZero (rug_score (RugJson (Some 700))) \<and> \<not> isNew rd
              \<and> (\<forall>later reply2 later'. later - 1300 < CACHE_TTL \<longrightarrow>
                  fetchRugCheckData [''M'' \<mapsto> (rd, 1300)] later ''M'' reply2 later'
                    = (rd, [''M'' \<mapsto> (rd, 1300)], 0))"
    by (rule R[THEN conjunct2, THEN conjunct2, THEN conjunct2, THEN conjunct2, THEN conjunct2,
          THEN conjunct1, THEN mp]) (rule rcond)
  then obtain rd where rd: "fetchRugCheckData Map.empty 1000 ''M'' (Returns ?res) 1300
                         = (rd, [''M'' \<mapsto> (rd, 1300)], 1)"
    and ragain: "\<forall>later reply2 later'. later - 1300 < CACHE_TTL \<longrightarrow>
                  fetchRugCheckData [''M'' \<mapsto> (rd, 1300)] later ''M'' reply2 later'
                    = (rd, [''M'' \<mapsto> (rd, 1300)], 0)"
    by (elim exE conjE)
  have "fst (fetchRugCheckData Map.empty 1000 ''M'' (Returns ?res) 1300) = ?rd"
    by (simp add: fetchRugCheckData_def cacheHit_def orZero_def Let_def)
  with rd have rv: "rd = ?rd" by simp
  have w4: "fetchRugCheckData Map.empty 1000 ''M'' (Returns ?res) 1300
              = (?rd, [''M'' \<mapsto> (?rd, 1300)], 1)"
    using rd unfolding rv .
  have w5: "fetchRugCheckData [''M'' \<mapsto> (?rd, 1300)] 61299 ''M'' (Throws None) 61400
              = (?rd, [''M'' \<mapsto> (?rd, 1300)], 0)"
    using ragain[rule_format, of 61299 "Throws None" 61400] unfolding rv
    by (simp add: CACHE_TTL_def)
  from w1 w2 w3 w4 w5 show ?thesis by (intro conjI)
qed

text \<open>
  The claim as stated fails for the risk-score cache: a lookup answered with status 404
  returns the result for a new token and stores nothing, so the same lookup half a
  second later issues a request again.
\<close>

theorem new_token_not_cached_counterexample:
  "fetchRugCheckData Map.empty 1000 ''M'' (Returns \<lparr>status = 404, ok = False, body = None\<rparr>) 1300
     = (\<lparr>score = 0, riskLevel = ''unknown'', isNew = True\<rparr>, Map.empty, 1)
   \<and> fetchRugCheckData
       (fst (snd (fetchRugCheckData Map.empty 1000 ''M''
                    (Returns \<lparr>status = 404, ok = False, body = None\<rparr>) 1300)))
       1500 ''M'' (Returns \<lparr>status = 404, ok = False, body = None\<rparr>) 1800
     = (\<lparr>score = 0, riskLevel = ''unknown'', isNew = True\<rparr>, Map.empty, 1)"
  by (simp add: fetchRugCheckData_def cacheHit_def)

end
